theory Spec2Isabelle
  imports Main "HOL-Library.Sublist"
begin

section \<open>Data model\<close>

text \<open>
  A task definition is one dictionary of the list \<open>TASKS\<close> of \<^verbatim>\<open>app.py\<close>, with the
  keys \<open>"id"\<close>, \<open>"label"\<close> and \<open>"group"\<close>. The key \<open>"id"\<close> is the field \<open>id_t\<close>, since
  \<open>id\<close> is the identity function of HOL.
\<close>

record task =
  id_t :: string
  label :: string
  group :: string

text \<open>
  The dictionary \<open>RESOURCES\<close>: its seven keys are fixed in the source, so it is a record.
\<close>

record resources =
  handbook_url :: string
  brand_center_url :: string
  pd_recordings_url :: string
  staff_directory_url :: string
  all_team_channel :: string
  announcements_channel :: string
  admin_email :: string

text \<open>
  One row of the table \<open>onboarding_progress\<close>. The column \<open>done\<close> is an SQL
  \<open>INTEGER\<close>; it is the field \<open>done_flag\<close> (\<open>done\<close> is a keyword of the proof language).
  The table is the list of its rows. The primary key \<open>(user_id, task_id)\<close> is not built
  into the type: \<open>insert_or_ignore\<close> below is what keeps keys unique.
\<close>

record row =
  user_id :: string
  task_id :: string
  done_flag :: int
  updated_at :: string

type_synonym table = "row list"

section \<open>The progress store\<close>

text \<open>
  \<^verbatim>\<open>INSERT OR IGNORE INTO onboarding_progress(user_id, task_id, done, updated_at)
  VALUES(?,?,0,?)\<close>: the row is added unless a row with the same primary key exists.
\<close>

definition insert_or_ignore :: "string \<Rightarrow> string \<Rightarrow> string \<Rightarrow> table \<Rightarrow> table" where
  "insert_or_ignore u tid now conn =
     (if list_ex (\<lambda>r. user_id r = u \<and> task_id r = tid) conn then conn
      else conn @ [\<lparr>user_id = u, task_id = tid, done_flag = 0, updated_at = now\<rparr>])"

text \<open>
  \<open>ensure_user_rows\<close>: one \<open>INSERT OR IGNORE\<close> for each task of the catalog, in catalog
  order. The catalog \<open>tasks\<close> (the global \<open>TASKS\<close>), the clock reading \<open>now\<close> and the
  table \<open>conn\<close> are explicit arguments.
\<close>

definition ensure_user_rows :: "task list \<Rightarrow> string \<Rightarrow> string \<Rightarrow> table \<Rightarrow> table" where
  "ensure_user_rows tasks now u conn =
     fold (\<lambda>t c. insert_or_ignore u (id_t t) now c) tasks conn"

text \<open>
  \<open>get_done_set\<close>: \<^verbatim>\<open>SELECT task_id FROM onboarding_progress WHERE user_id=? AND done=1\<close>,
  collected into a set.
\<close>

definition get_done_set :: "table \<Rightarrow> string \<Rightarrow> string set" where
  "get_done_set conn u =
     set (map task_id (filter (\<lambda>r. user_id r = u \<and> done_flag r = 1) conn))"

text \<open>
  \<^verbatim>\<open>UPDATE onboarding_progress SET done=?, updated_at=? WHERE user_id=? AND task_id=?\<close>:
  every row with that key is overwritten, and no row is added when there is none.
\<close>

definition sql_update :: "int \<Rightarrow> string \<Rightarrow> string \<Rightarrow> string \<Rightarrow> table \<Rightarrow> table" where
  "sql_update is_done now u tid conn =
     map (\<lambda>r. if user_id r = u \<and> task_id r = tid
               then r\<lparr>done_flag := is_done, updated_at := now\<rparr> else r) conn"

definition set_done_bulk :: "task list \<Rightarrow> string \<Rightarrow> string \<Rightarrow> string set \<Rightarrow> table \<Rightarrow> table" where
  "set_done_bulk tasks now u new_done_ids conn =
     fold (\<lambda>t c. sql_update (if id_t t \<in> new_done_ids then 1 else 0) now u (id_t t) c)
       tasks conn"

section \<open>Strings\<close>

text \<open>
  Strings are byte strings here. \<open>lower\<close> is Python's \<open>str.lower\<close> on ASCII text: the
  letters \<open>A\<close> to \<open>Z\<close> go to \<open>a\<close> to \<open>z\<close>, every other byte stays. (On text beyond
  ASCII Python lowers more characters; the group names of \<open>TASKS\<close> are ASCII.)
\<close>

definition lower_char :: "char \<Rightarrow> char" where
  "lower_char c =
     (let n = (of_char c :: nat) in if 65 \<le> n \<and> n \<le> 90 then char_of (n + 32) else c)"

definition lower :: "string \<Rightarrow> string" where
  "lower s = map lower_char s"

text \<open>
  \<open>replace_first old new s\<close> is \<open>s.replace(old, new, 1)\<close>: the leftmost occurrence of
  \<open>old\<close> is replaced, and \<open>s\<close> is returned as it is when there is none.
\<close>

fun replace_first :: "string \<Rightarrow> string \<Rightarrow> string \<Rightarrow> string" where
  "replace_first old new [] = (if old = [] then new else [])"
| "replace_first old new (c # cs) =
     (if prefix old (c # cs) then new @ drop (length old) (c # cs)
      else c # replace_first old new cs)"

text \<open>The decimal numeral that an f-string prints for a non-negative integer.\<close>

definition digit_char :: "nat \<Rightarrow> char" where
  "digit_char d = char_of (48 + d)"

fun str_nat :: "nat \<Rightarrow> string" where
  "str_nat n =
     (if n < 10 then [digit_char n] else str_nat (n div 10) @ [digit_char (n mod 10)])"

declare str_nat.simps [simp del]

text \<open>The bullet U+2022 of the resources line, in UTF-8.\<close>

definition bullet :: string where
  "bullet = [CHR 0xE2, CHR 0x80, CHR 0xA2]"

section \<open>The view document\<close>

text \<open>
  The dictionaries that \<open>build_home_view\<close> builds. A text object
  \<open>{"type": "plain_text", "text": s}\<close> or \<open>{"type": "mrkdwn", "text": s}\<close> is a
  constructor applied to \<open>s\<close>; a block is a constructor for its \<open>"type"\<close>. In the
  checkbox element the key \<open>"initial_options"\<close> may be absent: \<open>None\<close> is the absent
  key, \<open>Some []\<close> would be the key bound to an empty list.
\<close>

datatype text_object = Plain_text string | Mrkdwn string

record option_object =
  opt_text :: text_object
  opt_value :: string

record checkboxes =
  action_id :: string
  options :: "option_object list"
  initial_options :: "option_object list option"

datatype block =
    Header text_object
  | Section text_object
  | Actions "checkboxes list"
  | Context "text_object list"

datatype view = Home (view_blocks: "block list")

datatype error = KeyError

section \<open>Grouping the catalog\<close>

text \<open>\<open>group_names_in_order\<close>: the loop appends a group to \<open>seen\<close> when it is not there yet.\<close>

definition group_names_in_order :: "task list \<Rightarrow> string list" where
  "group_names_in_order tasks =
     fold (\<lambda>t seen. if group t \<notin> set seen then seen @ [group t] else seen) tasks []"

text \<open>
  \<open>tasks_by_group\<close>: \<open>groups.setdefault(t["group"], []).append(t)\<close> for each task. The
  dictionary is a map from group names to task lists.
\<close>

definition setdefault_append :: "task \<Rightarrow> (string \<rightharpoonup> task list) \<Rightarrow> (string \<rightharpoonup> task list)" where
  "setdefault_append t groups =
     groups(group t \<mapsto> (case groups (group t) of None \<Rightarrow> [] | Some items \<Rightarrow> items) @ [t])"

definition tasks_by_group :: "task list \<Rightarrow> (string \<rightharpoonup> task list)" where
  "tasks_by_group tasks = fold setdefault_append tasks Map.empty"

section \<open>The view builder\<close>

text \<open>The option dictionary \<open>{"text": {"type": "plain_text", "text": t["label"]}, "value": t["id"]}\<close>.\<close>

definition option_of_task :: "task \<Rightarrow> option_object" where
  "option_of_task t = \<lparr>opt_text = Plain_text (label t), opt_value = id_t t\<rparr>"

text \<open>
  The loop over the group names in \<open>build_home_view\<close>, with the list \<open>blocks\<close> it appends
  to. \<open>groups[group_name]\<close> raises \<open>KeyError\<close> on a name that is not a key.
\<close>

fun group_blocks ::
  "(string \<rightharpoonup> task list) \<Rightarrow> string set \<Rightarrow> string list \<Rightarrow> block list \<Rightarrow> error + block list"
where
  "group_blocks groups done [] blocks = Inr blocks"
| "group_blocks groups done (group_name # rest) blocks =
     (case groups group_name of
        None \<Rightarrow> Inl KeyError
      | Some items \<Rightarrow>
          (let group_done_count = length (filter (\<lambda>t. id_t t \<in> done) items);
               opts = map option_of_task items;
               initial = map option_of_task (filter (\<lambda>t. id_t t \<in> done) items);
               checkbox_el =
                 \<lparr>action_id = ''task_toggle_'' @ lower group_name,
                  options = opts,
                  initial_options = (if initial \<noteq> [] then Some initial else None)\<rparr>
           in group_blocks groups done rest
                (blocks @
                 [Section (Mrkdwn (''*'' @ group_name @ ''* ('' @ str_nat group_done_count
                    @ ''/'' @ str_nat (length items) @ '')'')),
                  Actions [checkbox_el]])))"

definition progress_text :: "task list \<Rightarrow> string set \<Rightarrow> string" where
  "progress_text tasks done = str_nat (card done) @ ''/'' @ str_nat (length tasks) @ '' completed''"

definition resources_md :: "resources \<Rightarrow> string" where
  "resources_md res =
     all_team_channel res @ '' '' @ bullet @ '' '' @ announcements_channel res
       @ '' '' @ bullet @ '' ''
       @ ''<'' @ handbook_url res @ ''|Handbook> '' @ bullet @ '' ''
       @ ''<'' @ brand_center_url res @ ''|Brand Center> '' @ bullet @ '' ''
       @ ''<'' @ pd_recordings_url res @ ''|PD Recordings> '' @ bullet @ '' ''
       @ ''<'' @ staff_directory_url res @ ''|Staff Directory>''"

text \<open>
  \<open>build_home_view\<close>, with the globals \<open>TASKS\<close> and \<open>RESOURCES\<close> and the table as
  arguments. It reads the table once, through \<open>get_done_set\<close>, and reads no clock.
\<close>

definition build_home_view :: "task list \<Rightarrow> resources \<Rightarrow> table \<Rightarrow> string \<Rightarrow> error + view" where
  "build_home_view tasks res conn u =
     (let done = get_done_set conn u;
          blocks0 =
            [Header (Plain_text ''TMS Onboarding Checklist''),
             Section (Mrkdwn ''Welcome to The Movement Street. Check items as you complete them. Your progress saves automatically.''),
             Section (Mrkdwn (''*Progress:* '' @ progress_text tasks done))]
      in case group_blocks (tasks_by_group tasks) done (group_names_in_order tasks) blocks0 of
           Inl e \<Rightarrow> Inl e
         | Inr blocks1 \<Rightarrow>
             Inr (Home (blocks1 @ [Context [Mrkdwn (''Resources: '' @ resources_md res)]])))"

section \<open>The event handlers\<close>

text \<open>
  What a handler sends out: \<open>ack()\<close>, \<open>ack(text)\<close>, \<open>client.chat_postMessage(channel,
  text)\<close> and \<open>client.views_publish(user_id, view)\<close>. A handler returns the table it
  leaves, the calls it made in order, and the exception it raised, if any.
\<close>

datatype effect =
    Ack
  | Ack_text string
  | Chat_postMessage string string
  | Views_publish string view

record outcome =
  store :: table
  effects :: "effect list"
  raised :: "error option"

text \<open>
  The last statement of every handler,
  \<open>client.views_publish(user_id=user_id, view=build_home_view(user_id))\<close>, after the
  calls \<open>sent\<close> made before it.
\<close>

definition publish_home_view ::
  "task list \<Rightarrow> resources \<Rightarrow> table \<Rightarrow> string \<Rightarrow> effect list \<Rightarrow> outcome" where
  "publish_home_view tasks res conn u sent =
     (case build_home_view tasks res conn u of
        Inl e \<Rightarrow> \<lparr>store = conn, effects = sent, raised = Some e\<rparr>
      | Inr v \<Rightarrow> \<lparr>store = conn, effects = sent @ [Views_publish u v], raised = None\<rparr>)"

definition handle_home_opened ::
  "task list \<Rightarrow> resources \<Rightarrow> string \<Rightarrow> string \<Rightarrow> table \<Rightarrow> outcome" where
  "handle_home_opened tasks res now u conn =
     publish_home_view tasks res (ensure_user_rows tasks now u conn) u []"

text \<open>The apostrophe of the greeting is U+2019, in UTF-8.\<close>

definition welcome_text :: string where
  "welcome_text =
     ''Welcome to TMS. Open the app'' @ [CHR 0xE2, CHR 0x80, CHR 0x99]
       @ ''s *Home* tab to see your onboarding checklist. If you have questions, reply here.''"

definition handle_team_join ::
  "task list \<Rightarrow> resources \<Rightarrow> string \<Rightarrow> string \<Rightarrow> table \<Rightarrow> outcome" where
  "handle_team_join tasks res now u conn =
     publish_home_view tasks res (ensure_user_rows tasks now u conn) u
       [Chat_postMessage u welcome_text]"

definition cmd_onboard ::
  "task list \<Rightarrow> resources \<Rightarrow> string \<Rightarrow> string \<Rightarrow> table \<Rightarrow> outcome" where
  "cmd_onboard tasks res now u conn =
     publish_home_view tasks res (ensure_user_rows tasks now u conn) u
       [Ack_text ''Opening your checklist in the App Home.'']"

text \<open>
  The payload of a checkbox action, as \<open>handle_toggle_any_group\<close> reads it:
  \<open>body["user"]["id"]\<close>, \<open>body["actions"][0]["action_id"]\<close> and
  \<open>body["actions"][0].get("selected_options", [])\<close>, where \<open>None\<close> is the absent key. The
  handler is registered for the action ids that match \<^verbatim>\<open>^task_toggle_\<close>.
\<close>

record toggle_body =
  body_user_id :: string
  body_action_id :: string
  body_selected_options :: "option_object list option"

text \<open>The local variables \<open>group_key\<close>, \<open>group_task_ids\<close> and \<open>selected_ids\<close> of the handler.\<close>

definition group_key :: "toggle_body \<Rightarrow> string" where
  "group_key body = replace_first ''task_toggle_'' [] (body_action_id body)"

definition group_task_ids :: "task list \<Rightarrow> toggle_body \<Rightarrow> string set" where
  "group_task_ids tasks body =
     set (map id_t (filter (\<lambda>t. lower (group t) = group_key body) tasks))"

definition selected_ids :: "toggle_body \<Rightarrow> string set" where
  "selected_ids body =
     set (map opt_value
       (case body_selected_options body of None \<Rightarrow> [] | Some opts \<Rightarrow> opts))"

text \<open>
  \<open>handle_toggle_any_group\<close>: \<open>now1\<close> is the clock reading of \<open>ensure_user_rows\<close> and
  \<open>now2\<close> that of \<open>set_done_bulk\<close>.
\<close>

definition handle_toggle_any_group ::
  "task list \<Rightarrow> resources \<Rightarrow> string \<Rightarrow> string \<Rightarrow> toggle_body \<Rightarrow> table \<Rightarrow> outcome" where
  "handle_toggle_any_group tasks res now1 now2 body conn =
     (let u = body_user_id body;
          current_done = get_done_set conn u;
          new_done = (current_done - group_task_ids tasks body) \<union> selected_ids body;
          conn1 = ensure_user_rows tasks now1 u conn;
          conn2 = set_done_bulk tasks now2 u new_done conn1
      in publish_home_view tasks res conn2 u [Ack])"

section \<open>The compiled-in configuration\<close>

definition RESOURCES :: resources where
  "RESOURCES =
     \<lparr>handbook_url = ''https://docs.google.com/document/d/1711C6vSp4r4EHZw5MbgYuy-LkxrPF-2o69fHCCgU0fQ/edit?usp=sharing'',
      brand_center_url = ''https://drive.google.com/file/d/1hTp4w1ufmJVgNkzYxsOLjcdI9kBvro1X/view?usp=sharing'',
      pd_recordings_url = ''https://drive.google.com/drive/folders/1VkBMVvdlG0IofZ7_RKB4dMT0aXEzsxew?usp=drive_link'',
      staff_directory_url = ''https://docs.google.com/spreadsheets/d/1_7uLjg20Oy-ajgQCVdtozPTiWnO5pgdniR3lpKqRjw0/edit?usp=sharing'',
      all_team_channel = ''<#allthemovementstreet>'',
      announcements_channel = ''<#announcements>'',
      admin_email = ''admin@themovementstreet.org''\<rparr>"

definition TASKS :: "task list" where
  "TASKS =
     [\<lparr>id_t = ''welcome_letter'', label = ''Sign Welcome Letter'', group = ''Paperwork''\<rparr>,
      \<lparr>id_t = ''nda'', label = ''Sign NDA'', group = ''Paperwork''\<rparr>,
      \<lparr>id_t = ''offer_letter'', label = ''Sign Offer Letter'', group = ''Paperwork''\<rparr>,
      \<lparr>id_t = ''volunteer_agreement'', label = ''Sign Volunteer Agreement'', group = ''Paperwork''\<rparr>,
      \<lparr>id_t = ''contract'', label = ''Sign Contract (duties and responsibilities)'', group = ''Paperwork''\<rparr>,
      \<lparr>id_t = ''upload_docs'', label = ''Upload docs & share with '' @ admin_email RESOURCES, group = ''Paperwork''\<rparr>,
      \<lparr>id_t = ''staff_directory'', label = ''Review Staff Directory'', group = ''Integration''\<rparr>,
      \<lparr>id_t = ''chapter_handbook'', label = ''Read Chapter Handbook'', group = ''Integration''\<rparr>,
      \<lparr>id_t = ''brand_center'', label = ''Explore Brand Center'', group = ''Integration''\<rparr>,
      \<lparr>id_t = ''pd_recordings'', label = ''Watch Professional Development Recordings'', group = ''Integration''\<rparr>,
      \<lparr>id_t = ''role_checklist'', label = ''Review your role-specific checklist'', group = ''Workflow''\<rparr>,
      \<lparr>id_t = ''setup_workflow'', label = ''Set up your role workflows and tools'', group = ''Workflow''\<rparr>,
      \<lparr>id_t = ''coffee_chat_1'', label = ''Coffee Chat #1 with a TMS team member'', group = ''Culture''\<rparr>,
      \<lparr>id_t = ''coffee_chat_2'', label = ''Coffee Chat #2 with a TMS team member'', group = ''Culture''\<rparr>,
      \<lparr>id_t = ''coffee_chat_3'', label = ''Coffee Chat #3 with a TMS team member'', group = ''Culture''\<rparr>]"

text \<open>
  The catalog of the specification's end-to-end scenario: \<open>t1\<close> and \<open>t2\<close> in group
  \<open>G1\<close>, \<open>t3\<close> in group \<open>G2\<close>. The scenario gives no labels; they are arguments.
\<close>

definition scenario_tasks :: "string \<Rightarrow> string \<Rightarrow> string \<Rightarrow> task list" where
  "scenario_tasks l1 l2 l3 =
     [\<lparr>id_t = ''t1'', label = l1, group = ''G1''\<rparr>,
      \<lparr>id_t = ''t2'', label = l2, group = ''G1''\<rparr>,
      \<lparr>id_t = ''t3'', label = l3, group = ''G2''\<rparr>]"

text \<open>
  The order of first occurrence, as the specification words the display order of the
  groups: the head, then the first occurrences among the rest without the head.
\<close>

fun first_occurrences :: "'a list \<Rightarrow> 'a list" where
  "first_occurrences [] = []"
| "first_occurrences (x # xs) = x # first_occurrences (filter (\<lambda>y. y \<noteq> x) xs)"

section \<open>Auxiliary notions for the statements\<close>

text \<open>
  What \<open>set_done_bulk\<close> does to one row: the row of user \<open>u\<close> for a catalog task gets the
  new flag and the new time, every other row stays.
\<close>

definition overwrite :: "task list \<Rightarrow> string \<Rightarrow> string \<Rightarrow> string set \<Rightarrow> row \<Rightarrow> row" where
  "overwrite tasks now u new_done_ids r =
     (if user_id r = u \<and> task_id r \<in> id_t ` set tasks
      then r\<lparr>done_flag := (if task_id r \<in> new_done_ids then 1 else 0), updated_at := now\<rparr>
      else r)"

text \<open>The three blocks every view starts with, and the two blocks of one group.\<close>

definition intro_blocks :: "task list \<Rightarrow> string set \<Rightarrow> block list" where
  "intro_blocks tasks done =
     [Header (Plain_text ''TMS Onboarding Checklist''),
      Section (Mrkdwn ''Welcome to The Movement Street. Check items as you complete them. Your progress saves automatically.''),
      Section (Mrkdwn (''*Progress:* '' @ progress_text tasks done))]"

definition group_section :: "task list \<Rightarrow> string set \<Rightarrow> string \<Rightarrow> block list" where
  "group_section tasks done g =
     (let items = filter (\<lambda>t. group t = g) tasks;
          checked = filter (\<lambda>t. id_t t \<in> done) items
      in [Section (Mrkdwn (''*'' @ g @ ''* ('' @ str_nat (length checked) @ ''/''
            @ str_nat (length items) @ '')'')),
          Actions [\<lparr>action_id = ''task_toggle_'' @ lower g,
                    options = map option_of_task items,
                    initial_options =
                      (if checked = [] then None else Some (map option_of_task checked))\<rparr>]])"

text \<open>
  Reading a result: the blocks of the view that \<open>build_home_view\<close> returned (none when
  it raised), the checkbox elements among some blocks, and the views a handler published.
\<close>

definition rendered_blocks :: "error + view \<Rightarrow> block list" where
  "rendered_blocks r = (case r of Inl e \<Rightarrow> [] | Inr v \<Rightarrow> view_blocks v)"

definition checkbox_elements :: "block list \<Rightarrow> checkboxes list" where
  "checkbox_elements bs = concat (map (\<lambda>b. case b of Actions els \<Rightarrow> els | _ \<Rightarrow> []) bs)"

definition published_views :: "outcome \<Rightarrow> view list" where
  "published_views out =
     concat (map (\<lambda>e. case e of Views_publish u v \<Rightarrow> [v] | _ \<Rightarrow> []) (effects out))"

section \<open>The store operations\<close>

lemma ensure_user_rows_Nil: "ensure_user_rows [] now u conn = conn"
  by (simp add: ensure_user_rows_def)

lemma ensure_user_rows_Cons:
  "ensure_user_rows (t # ts) now u conn =
     ensure_user_rows ts now u (insert_or_ignore u (id_t t) now conn)"
  by (simp add: ensure_user_rows_def)

lemma insert_or_ignore_has_row:
  "list_ex (\<lambda>r. user_id r = u \<and> task_id r = tid) (insert_or_ignore u tid now conn)"
  by (simp add: insert_or_ignore_def list_ex_iff)

lemma insert_or_ignore_keeps_row:
  "list_ex P conn \<Longrightarrow> list_ex P (insert_or_ignore u tid now conn)"
  by (auto simp add: insert_or_ignore_def list_ex_iff)

lemma ensure_user_rows_keeps_row:
  "list_ex P conn \<Longrightarrow> list_ex P (ensure_user_rows tasks now u conn)"
  by (induction tasks arbitrary: conn)
     (simp_all add: ensure_user_rows_Nil ensure_user_rows_Cons insert_or_ignore_keeps_row)

lemma ensure_user_rows_has_row:
  "t \<in> set tasks \<Longrightarrow>
   list_ex (\<lambda>r. user_id r = u \<and> task_id r = id_t t) (ensure_user_rows tasks now u conn)"
proof (induction tasks arbitrary: conn)
  case Nil
  then show ?case by simp
next
  case (Cons a tasks)
  show ?case
  proof (cases "t = a")
    case True
    then show ?thesis
      by (simp add: ensure_user_rows_Cons ensure_user_rows_keeps_row insert_or_ignore_has_row)
  next
    case False
    with Cons show ?thesis by (simp add: ensure_user_rows_Cons)
  qed
qed

lemma ensure_user_rows_fixed:
  "(\<And>t. t \<in> set tasks \<Longrightarrow> list_ex (\<lambda>r. user_id r = u \<and> task_id r = id_t t) conn) \<Longrightarrow>
   ensure_user_rows tasks now u conn = conn"
  by (induction tasks arbitrary: conn)
     (simp_all add: ensure_user_rows_Nil ensure_user_rows_Cons insert_or_ignore_def)

lemma ensure_user_rows_idem:
  "ensure_user_rows tasks now' u (ensure_user_rows tasks now u conn) =
     ensure_user_rows tasks now u conn"
  by (rule ensure_user_rows_fixed) (rule ensure_user_rows_has_row)

lemma ensure_user_rows_repeat:
  "fold (\<lambda>n c. ensure_user_rows tasks n u c) nows (ensure_user_rows tasks now u conn) =
     ensure_user_rows tasks now u conn"
  by (induction nows) (simp_all add: ensure_user_rows_idem)

text \<open>
  The table after \<open>ensure_user_rows\<close> is the table before, followed by one fresh row for
  each catalog id that had no row of the user.
\<close>

lemma ensure_user_rows_append:
  "\<exists>new. ensure_user_rows tasks now u conn = conn @ new \<and> distinct (map task_id new) \<and>
     set new = (\<lambda>tid. \<lparr>user_id = u, task_id = tid, done_flag = 0, updated_at = now\<rparr>) `
       {tid \<in> id_t ` set tasks. \<not> list_ex (\<lambda>r. user_id r = u \<and> task_id r = tid) conn}"
proof (induction tasks arbitrary: conn)
  case Nil
  then show ?case by (simp add: ensure_user_rows_Nil)
next
  case (Cons t ts)
  let ?mk = "\<lambda>tid. \<lparr>user_id = u, task_id = tid, done_flag = 0, updated_at = now\<rparr>"
  let ?has = "\<lambda>c tid. list_ex (\<lambda>r. user_id r = u \<and> task_id r = tid) c"
  show ?case
  proof (cases "?has conn (id_t t)")
    case True
    from Cons.IH[of conn] obtain new where
      n: "ensure_user_rows ts now u conn = conn @ new" "distinct (map task_id new)"
         "set new = ?mk ` {tid \<in> id_t ` set ts. \<not> ?has conn tid}" by blast
    have "{tid \<in> id_t ` set (t # ts). \<not> ?has conn tid} = {tid \<in> id_t ` set ts. \<not> ?has conn tid}"
      using True by auto
    with n True show ?thesis
      by (simp add: ensure_user_rows_Cons insert_or_ignore_def)
  next
    case False
    let ?c = "conn @ [?mk (id_t t)]"
    from Cons.IH[of ?c] obtain new where
      n: "ensure_user_rows ts now u ?c = ?c @ new" "distinct (map task_id new)"
         "set new = ?mk ` {tid \<in> id_t ` set ts. \<not> ?has ?c tid}" by blast
    have h: "?has ?c tid \<longleftrightarrow> ?has conn tid \<or> tid = id_t t" for tid
      by (auto simp add: list_ex_iff)
    have s: "{tid \<in> id_t ` set (t # ts). \<not> ?has conn tid} =
             insert (id_t t) {tid \<in> id_t ` set ts. \<not> ?has ?c tid}"
      using False by (auto simp add: h)
    have notin: "id_t t \<notin> task_id ` set new"
      unfolding n(3) by (auto simp add: h)
    have "ensure_user_rows (t # ts) now u conn = conn @ (?mk (id_t t) # new)"
      using False n(1) by (simp add: ensure_user_rows_Cons insert_or_ignore_def)
    moreover have "distinct (map task_id (?mk (id_t t) # new))"
      using n(2) notin by simp
    moreover have "set (?mk (id_t t) # new) = ?mk ` {tid \<in> id_t ` set (t # ts). \<not> ?has conn tid}"
      unfolding s using n(3) by simp
    ultimately show ?thesis by blast
  qed
qed

text \<open>
  Claim C5. \<open>ensure_user_rows\<close> is idempotent and non-destructive. After one call, any
  number of further calls (at the clock readings \<open>nows\<close>) leave the table as the first
  call left it. The table after a call starts with the table before it, row for row, so
  no existing row changes its \<open>done\<close> flag or its \<open>updated_at\<close>. The rows added are one
  row \<open>(u, id, 0, now)\<close> for exactly the catalog ids that had no row of the user.
\<close>

theorem ensure_user_rows_idempotent_nondestructive:
  "fold (\<lambda>n c. ensure_user_rows tasks n u c) nows (ensure_user_rows tasks now u conn) =
     ensure_user_rows tasks now u conn
   \<and> take (length conn) (ensure_user_rows tasks now u conn) = conn
   \<and> distinct (map task_id (drop (length conn) (ensure_user_rows tasks now u conn)))
   \<and> set (drop (length conn) (ensure_user_rows tasks now u conn)) =
       (\<lambda>tid. \<lparr>user_id = u, task_id = tid, done_flag = 0, updated_at = now\<rparr>) `
         {tid \<in> id_t ` set tasks. \<not> list_ex (\<lambda>r. user_id r = u \<and> task_id r = tid) conn}"
proof -
  obtain new where
    n: "ensure_user_rows tasks now u conn = conn @ new" "distinct (map task_id new)"
       "set new = (\<lambda>tid. \<lparr>user_id = u, task_id = tid, done_flag = 0, updated_at = now\<rparr>) `
          {tid \<in> id_t ` set tasks. \<not> list_ex (\<lambda>r. user_id r = u \<and> task_id r = tid) conn}"
    using ensure_user_rows_append [of tasks now u conn] by (elim exE conjE)
  have d: "drop (length conn) (ensure_user_rows tasks now u conn) = new"
    by (simp add: n(1))
  show ?thesis
  proof (intro conjI)
    show "fold (\<lambda>n c. ensure_user_rows tasks n u c) nows (ensure_user_rows tasks now u conn) =
            ensure_user_rows tasks now u conn"
      by (rule ensure_user_rows_repeat)
    show "take (length conn) (ensure_user_rows tasks now u conn) = conn"
      by (simp add: n(1))
    show "distinct (map task_id (drop (length conn) (ensure_user_rows tasks now u conn)))"
      unfolding d by (rule n(2))
    show "set (drop (length conn) (ensure_user_rows tasks now u conn)) =
       (\<lambda>tid. \<lparr>user_id = u, task_id = tid, done_flag = 0, updated_at = now\<rparr>) `
         {tid \<in> id_t ` set tasks. \<not> list_ex (\<lambda>r. user_id r = u \<and> task_id r = tid) conn}"
      unfolding d by (rule n(3))
  qed
qed

text \<open>
  An instance: user \<open>u1\<close> has completed \<open>t1\<close> of the scenario catalog and has no rows for
  \<open>t2\<close> and \<open>t3\<close>. Three calls in a row add the two missing rows once and keep the row
  of \<open>t1\<close> done.
\<close>

theorem ensure_user_rows_idempotent_nondestructive_witness:
  "fold (\<lambda>n c. ensure_user_rows (scenario_tasks [] [] []) n ''u1'' c) [''n1'', ''n2'']
     (ensure_user_rows (scenario_tasks [] [] []) ''n0'' ''u1''
        [\<lparr>user_id = ''u1'', task_id = ''t1'', done_flag = 1, updated_at = ''old''\<rparr>]) =
   [\<lparr>user_id = ''u1'', task_id = ''t1'', done_flag = 1, updated_at = ''old''\<rparr>,
    \<lparr>user_id = ''u1'', task_id = ''t2'', done_flag = 0, updated_at = ''n0''\<rparr>,
    \<lparr>user_id = ''u1'', task_id = ''t3'', done_flag = 0, updated_at = ''n0''\<rparr>]"
proof -
  have "ensure_user_rows (scenario_tasks [] [] []) ''n0'' ''u1''
          [\<lparr>user_id = ''u1'', task_id = ''t1'', done_flag = 1, updated_at = ''old''\<rparr>] =
        [\<lparr>user_id = ''u1'', task_id = ''t1'', done_flag = 1, updated_at = ''old''\<rparr>,
         \<lparr>user_id = ''u1'', task_id = ''t2'', done_flag = 0, updated_at = ''n0''\<rparr>,
         \<lparr>user_id = ''u1'', task_id = ''t3'', done_flag = 0, updated_at = ''n0''\<rparr>]"
    by (simp add: ensure_user_rows_def scenario_tasks_def insert_or_ignore_def)
  with ensure_user_rows_idempotent_nondestructive
         [of "scenario_tasks [] [] []" "''u1''" "[''n1'', ''n2'']" "''n0''"
            "[\<lparr>user_id = ''u1'', task_id = ''t1'', done_flag = 1, updated_at = ''old''\<rparr>]"]
  show ?thesis by simp
qed

section \<open>Reading and overwriting the completed set\<close>

lemma in_get_done_set:
  "x \<in> get_done_set conn u \<longleftrightarrow>
     (\<exists>r\<in>set conn. user_id r = u \<and> done_flag r = 1 \<and> task_id r = x)"
  by (auto simp add: get_done_set_def)

lemma get_done_set_insert_or_ignore:
  "get_done_set (insert_or_ignore u tid now conn) u' = get_done_set conn u'"
  by (auto simp add: insert_or_ignore_def get_done_set_def)

lemma get_done_set_ensure_user_rows:
  "get_done_set (ensure_user_rows tasks now u conn) u' = get_done_set conn u'"
  by (induction tasks arbitrary: conn)
     (simp_all add: ensure_user_rows_Nil ensure_user_rows_Cons get_done_set_insert_or_ignore)

lemma overwrite_keys [simp]:
  "user_id (overwrite tasks now u D r) = user_id r"
  "task_id (overwrite tasks now u D r) = task_id r"
  by (simp_all add: overwrite_def)

lemma overwrite_done_flag:
  "done_flag (overwrite tasks now u D r) =
     (if user_id r = u \<and> task_id r \<in> id_t ` set tasks
      then (if task_id r \<in> D then 1 else 0) else done_flag r)"
  by (simp add: overwrite_def)

lemma overwrite_Cons:
  "overwrite ts now u D
     (if user_id r = u \<and> task_id r = id_t t
      then r\<lparr>done_flag := (if id_t t \<in> D then 1 else 0), updated_at := now\<rparr> else r) =
   overwrite (t # ts) now u D r"
  by (auto simp add: overwrite_def)

text \<open>The loop of \<open>set_done_bulk\<close> overwrites each row once, whatever the catalog order.\<close>

lemma set_done_bulk_eq:
  "set_done_bulk tasks now u D conn = map (overwrite tasks now u D) conn"
proof (induction tasks arbitrary: conn)
  case Nil
  show ?case by (simp add: set_done_bulk_def overwrite_def)
next
  case (Cons t ts)
  have "set_done_bulk (t # ts) now u D conn =
          set_done_bulk ts now u D (sql_update (if id_t t \<in> D then 1 else 0) now u (id_t t) conn)"
    by (simp add: set_done_bulk_def)
  also have "\<dots> = map (overwrite ts now u D)
                     (sql_update (if id_t t \<in> D then 1 else 0) now u (id_t t) conn)"
    by (rule Cons.IH)
  also have "\<dots> = map (overwrite (t # ts) now u D) conn"
    unfolding sql_update_def map_map comp_def overwrite_Cons ..
  finally show ?case .
qed

lemma get_done_set_set_done_bulk:
  assumes "\<And>t. t \<in> set tasks \<Longrightarrow> list_ex (\<lambda>r. user_id r = u \<and> task_id r = id_t t) conn"
  shows "get_done_set (set_done_bulk tasks now u D conn) u =
           (D \<inter> id_t ` set tasks) \<union> (get_done_set conn u - id_t ` set tasks)"
proof (rule set_eqI)
  fix x
  have mem: "x \<in> get_done_set (set_done_bulk tasks now u D conn) u \<longleftrightarrow>
      (\<exists>r\<in>set conn. user_id r = u \<and> task_id r = x \<and>
         (if x \<in> id_t ` set tasks then x \<in> D else done_flag r = 1))"
    unfolding in_get_done_set set_done_bulk_eq
    by (auto simp add: overwrite_done_flag)
  show "x \<in> get_done_set (set_done_bulk tasks now u D conn) u \<longleftrightarrow>
        x \<in> (D \<inter> id_t ` set tasks) \<union> (get_done_set conn u - id_t ` set tasks)"
  proof (cases "x \<in> id_t ` set tasks")
    case True
    then obtain t where t: "t \<in> set tasks" "x = id_t t" by blast
    from assms[OF t(1)] have "\<exists>r\<in>set conn. user_id r = u \<and> task_id r = x"
      using t(2) by (simp add: list_ex_iff)
    with True show ?thesis unfolding mem by auto
  next
    case False
    then show ?thesis unfolding mem by (auto simp add: in_get_done_set)
  qed
qed

lemma get_done_set_set_done_bulk_other:
  "u' \<noteq> u \<Longrightarrow> get_done_set (set_done_bulk tasks now u D conn) u' = get_done_set conn u'"
  unfolding set_eq_iff in_get_done_set set_done_bulk_eq
  by (auto simp add: overwrite_done_flag)

section \<open>The shape of the view\<close>

lemma fold_seen:
  "fold (\<lambda>t seen. if group t \<notin> set seen then seen @ [group t] else seen) tasks seen =
     seen @ first_occurrences (filter (\<lambda>g. g \<notin> set seen) (map group tasks))"
proof (induction tasks arbitrary: seen)
  case Nil
  show ?case by simp
next
  case (Cons t ts)
  show ?case
  proof (cases "group t \<in> set seen")
    case True
    then show ?thesis by (simp add: Cons.IH)
  next
    case False
    have "filter (\<lambda>g. g \<notin> set (seen @ [group t])) (map group ts) =
          filter (\<lambda>y. y \<noteq> group t) (filter (\<lambda>g. g \<notin> set seen) (map group ts))"
      by (induction ts) auto
    with False show ?thesis by (simp add: Cons.IH)
  qed
qed

lemma group_names_in_order_eq:
  "group_names_in_order tasks = first_occurrences (map group tasks)"
  by (simp add: group_names_in_order_def fold_seen)

lemma set_first_occurrences: "set (first_occurrences xs) = set xs"
  by (induction xs rule: first_occurrences.induct) auto

lemma distinct_first_occurrences: "distinct (first_occurrences xs)"
  by (induction xs rule: first_occurrences.induct) (auto simp add: set_first_occurrences)

lemma fold_setdefault_append:
  "fold setdefault_append tasks m g =
     (if (\<exists>t\<in>set tasks. group t = g)
      then Some ((case m g of None \<Rightarrow> [] | Some items \<Rightarrow> items) @ filter (\<lambda>t. group t = g) tasks)
      else m g)"
  by (induction tasks arbitrary: m) (auto simp add: setdefault_append_def empty_filter_conv)

lemma tasks_by_group_eq:
  "tasks_by_group tasks g =
     (if (\<exists>t\<in>set tasks. group t = g) then Some (filter (\<lambda>t. group t = g) tasks)
      else None)"
  by (simp add: tasks_by_group_def fold_setdefault_append)

lemma group_blocks_eq:
  "(\<And>g. g \<in> set names \<Longrightarrow> groups g = Some (filter (\<lambda>t. group t = g) tasks)) \<Longrightarrow>
   group_blocks groups done names blocks =
     Inr (blocks @ concat (map (group_section tasks done) names))"
  by (induction names arbitrary: blocks) (simp_all add: group_section_def Let_def)

text \<open>
  \<open>build_home_view\<close> never raises: every name of \<open>group_names_in_order\<close> is a key of
  \<open>tasks_by_group\<close>. The view is the three opening blocks, the two blocks of each group
  in the order of first occurrence, and the resources line.
\<close>

lemma build_home_view_eq:
  "build_home_view tasks res conn u =
     Inr (Home (intro_blocks tasks (get_done_set conn u)
       @ concat (map (group_section tasks (get_done_set conn u))
           (first_occurrences (map group tasks)))
       @ [Context [Mrkdwn (''Resources: '' @ resources_md res)]]))"
proof -
  have "group_blocks (tasks_by_group tasks) (get_done_set conn u)
          (first_occurrences (map group tasks)) (intro_blocks tasks (get_done_set conn u)) =
        Inr (intro_blocks tasks (get_done_set conn u)
          @ concat (map (group_section tasks (get_done_set conn u))
              (first_occurrences (map group tasks))))"
    by (rule group_blocks_eq) (auto simp add: tasks_by_group_eq set_first_occurrences)
  then show ?thesis
    by (simp add: build_home_view_def Let_def group_names_in_order_eq intro_blocks_def)
qed

section \<open>The toggle handler\<close>

lemma group_task_ids_subset: "group_task_ids tasks body \<subseteq> id_t ` set tasks"
  by (auto simp add: group_task_ids_def)

lemma publish_home_view_eq:
  "publish_home_view tasks res conn u sent =
     \<lparr>store = conn,
      effects = sent @ [Views_publish u (Home (intro_blocks tasks (get_done_set conn u)
         @ concat (map (group_section tasks (get_done_set conn u))
             (first_occurrences (map group tasks)))
         @ [Context [Mrkdwn (''Resources: '' @ resources_md res)]]))],
      raised = None\<rparr>"
  by (simp add: publish_home_view_def build_home_view_eq)

lemma store_publish_home_view [simp]:
  "store (publish_home_view tasks res conn u sent) = conn"
  by (simp add: publish_home_view_eq)

lemma raised_publish_home_view [simp]:
  "raised (publish_home_view tasks res conn u sent) = None"
  by (simp add: publish_home_view_eq)

lemma effects_publish_home_view:
  "\<exists>v. build_home_view tasks res conn u = Inr v \<and>
       effects (publish_home_view tasks res conn u sent) = sent @ [Views_publish u v]"
  by (simp add: publish_home_view_def build_home_view_eq)

lemma store_handle_toggle_any_group:
  "store (handle_toggle_any_group tasks res now1 now2 body conn) =
     set_done_bulk tasks now2 (body_user_id body)
       ((get_done_set conn (body_user_id body) - group_task_ids tasks body) \<union> selected_ids body)
       (ensure_user_rows tasks now1 (body_user_id body) conn)"
  by (simp add: handle_toggle_any_group_def Let_def)

lemma raised_handle_toggle_any_group:
  "raised (handle_toggle_any_group tasks res now1 now2 body conn) = None"
  by (simp add: handle_toggle_any_group_def Let_def)

lemma effects_handle_toggle_any_group:
  "\<exists>v. build_home_view tasks res
          (store (handle_toggle_any_group tasks res now1 now2 body conn)) (body_user_id body) = Inr v \<and>
       effects (handle_toggle_any_group tasks res now1 now2 body conn) =
         [Ack, Views_publish (body_user_id body) v]"
  using effects_publish_home_view
    [of tasks res "store (handle_toggle_any_group tasks res now1 now2 body conn)"
        "body_user_id body" "[Ack]"]
  by (simp add: handle_toggle_any_group_def Let_def)

lemma toggle_done_set:
  "get_done_set (store (handle_toggle_any_group tasks res now1 now2 body conn)) (body_user_id body) =
     (get_done_set conn (body_user_id body) - group_task_ids tasks body)
       \<union> (selected_ids body \<inter> id_t ` set tasks)"
proof -
  let ?u = "body_user_id body"
  let ?c1 = "ensure_user_rows tasks now1 ?u conn"
  let ?D = "(get_done_set conn ?u - group_task_ids tasks body) \<union> selected_ids body"
  have "get_done_set (set_done_bulk tasks now2 ?u ?D ?c1) ?u =
          (?D \<inter> id_t ` set tasks) \<union> (get_done_set ?c1 ?u - id_t ` set tasks)"
    by (rule get_done_set_set_done_bulk) (rule ensure_user_rows_has_row)
  also have "\<dots> = (?D \<inter> id_t ` set tasks) \<union> (get_done_set conn ?u - id_t ` set tasks)"
    by (simp only: get_done_set_ensure_user_rows)
  also have "\<dots> = (get_done_set conn ?u - group_task_ids tasks body)
       \<union> (selected_ids body \<inter> id_t ` set tasks)"
    using group_task_ids_subset[of tasks body] by blast
  finally show ?thesis by (simp only: store_handle_toggle_any_group)
qed

lemma toggle_done_set_other:
  "u' \<noteq> body_user_id body \<Longrightarrow>
   get_done_set (store (handle_toggle_any_group tasks res now1 now2 body conn)) u' =
     get_done_set conn u'"
  by (simp add: store_handle_toggle_any_group get_done_set_set_done_bulk_other
        get_done_set_ensure_user_rows)

lemma replace_first_task_toggle:
  "replace_first ''task_toggle_'' [] (''task_toggle_'' @ s) = s"
  by simp

lemma lower_G1: "lower ''G1'' = ''g1''" by code_simp
lemma lower_G2: "lower ''G2'' = ''g2''" by code_simp

section \<open>The scoped merge\<close>

lemmas eval_defs =
  store_handle_toggle_any_group set_done_bulk_def sql_update_def
  ensure_user_rows_def insert_or_ignore_def get_done_set_def group_task_ids_def
  group_key_def selected_ids_def scenario_tasks_def lower_G1 lower_G2

text \<open>
  Claim C1, as the code has it. The handler takes no intersection with the task ids of
  the group: \<open>new_done\<close> is \<open>(current_done - group_task_ids) \<union> selected_ids\<close>, and
  \<open>set_done_bulk\<close> keeps of it what is a catalog id. So the completed set stored after the
  handler is the old one without the group's ids, together with every selected value that
  is a catalog id, of whatever group. Outside the group's ids and the selected values
  the completed set is as before.
\<close>

theorem toggle_merge_takes_no_intersection:
  "get_done_set (store (handle_toggle_any_group tasks res now1 now2 body conn))
       (body_user_id body) =
     (get_done_set conn (body_user_id body) - group_task_ids tasks body)
       \<union> (selected_ids body \<inter> id_t ` set tasks)
   \<and> get_done_set (store (handle_toggle_any_group tasks res now1 now2 body conn))
         (body_user_id body) - (group_task_ids tasks body \<union> selected_ids body) =
       get_done_set conn (body_user_id body) - (group_task_ids tasks body \<union> selected_ids body)"
proof -
  have "get_done_set (store (handle_toggle_any_group tasks res now1 now2 body conn))
       (body_user_id body) =
     (get_done_set conn (body_user_id body) - group_task_ids tasks body)
       \<union> (selected_ids body \<inter> id_t ` set tasks)"
    by (rule toggle_done_set)
  then show ?thesis by blast
qed

theorem toggle_merge_takes_no_intersection_witness:
  "get_done_set
     (store (handle_toggle_any_group (scenario_tasks [] [] []) RESOURCES ''n1'' ''n2''
        \<lparr>body_user_id = ''u1'', body_action_id = ''task_toggle_g1'',
          body_selected_options =
            Some [\<lparr>opt_text = Plain_text [], opt_value = ''t3''\<rparr>,
                  \<lparr>opt_text = Plain_text [], opt_value = ''zz''\<rparr>]\<rparr>
        [\<lparr>user_id = ''u1'', task_id = ''t1'', done_flag = 1, updated_at = ''n0''\<rparr>,
         \<lparr>user_id = ''u1'', task_id = ''t2'', done_flag = 0, updated_at = ''n0''\<rparr>,
         \<lparr>user_id = ''u1'', task_id = ''t3'', done_flag = 0, updated_at = ''n0''\<rparr>]))
     ''u1'' = {''t3''}"
  using toggle_merge_takes_no_intersection
    [of "scenario_tasks [] [] []" RESOURCES "''n1''" "''n2''"
        "\<lparr>body_user_id = ''u1'', body_action_id = ''task_toggle_g1'',
          body_selected_options =
            Some [\<lparr>opt_text = Plain_text [], opt_value = ''t3''\<rparr>,
                  \<lparr>opt_text = Plain_text [], opt_value = ''zz''\<rparr>]\<rparr>"
        "[\<lparr>user_id = ''u1'', task_id = ''t1'', done_flag = 1, updated_at = ''n0''\<rparr>,
         \<lparr>user_id = ''u1'', task_id = ''t2'', done_flag = 0, updated_at = ''n0''\<rparr>,
         \<lparr>user_id = ''u1'', task_id = ''t3'', done_flag = 0, updated_at = ''n0''\<rparr>]"]
  by (simp add: eval_defs)

text \<open>
  The claim as stated fails: user \<open>u1\<close> has completed nothing, and toggles group \<open>G1\<close>
  with the selected value \<open>t3\<close>, a task of group \<open>G2\<close>. The task \<open>t3\<close> is completed
  afterwards, while \<open>(current_done - group_task_ids) \<union> (selected \<inter> group_task_ids)\<close> is
  empty.
\<close>

theorem toggle_foreign_id_counterexample:
  "''t3'' \<notin> group_task_ids (scenario_tasks [] [] [])
        \<lparr>body_user_id = ''u1'', body_action_id = ''task_toggle_g1'',
          body_selected_options = Some [\<lparr>opt_text = Plain_text [], opt_value = ''t3''\<rparr>]\<rparr>
   \<and> ''t3'' \<notin> get_done_set
        [\<lparr>user_id = ''u1'', task_id = ''t1'', done_flag = 0, updated_at = ''n0''\<rparr>,
         \<lparr>user_id = ''u1'', task_id = ''t2'', done_flag = 0, updated_at = ''n0''\<rparr>,
         \<lparr>user_id = ''u1'', task_id = ''t3'', done_flag = 0, updated_at = ''n0''\<rparr>] ''u1''
   \<and> ''t3'' \<in> get_done_set
     (store (handle_toggle_any_group (scenario_tasks [] [] []) RESOURCES ''n1'' ''n2''
        \<lparr>body_user_id = ''u1'', body_action_id = ''task_toggle_g1'',
          body_selected_options = Some [\<lparr>opt_text = Plain_text [], opt_value = ''t3''\<rparr>]\<rparr>
        [\<lparr>user_id = ''u1'', task_id = ''t1'', done_flag = 0, updated_at = ''n0''\<rparr>,
         \<lparr>user_id = ''u1'', task_id = ''t2'', done_flag = 0, updated_at = ''n0''\<rparr>,
         \<lparr>user_id = ''u1'', task_id = ''t3'', done_flag = 0, updated_at = ''n0''\<rparr>]))
     ''u1''
   \<and> get_done_set
     (store (handle_toggle_any_group (scenario_tasks [] [] []) RESOURCES ''n1'' ''n2''
        \<lparr>body_user_id = ''u1'', body_action_id = ''task_toggle_g1'',
          body_selected_options = Some [\<lparr>opt_text = Plain_text [], opt_value = ''t3''\<rparr>]\<rparr>
        [\<lparr>user_id = ''u1'', task_id = ''t1'', done_flag = 0, updated_at = ''n0''\<rparr>,
         \<lparr>user_id = ''u1'', task_id = ''t2'', done_flag = 0, updated_at = ''n0''\<rparr>,
         \<lparr>user_id = ''u1'', task_id = ''t3'', done_flag = 0, updated_at = ''n0''\<rparr>]))
     ''u1'' \<noteq>
     (get_done_set
        [\<lparr>user_id = ''u1'', task_id = ''t1'', done_flag = 0, updated_at = ''n0''\<rparr>,
         \<lparr>user_id = ''u1'', task_id = ''t2'', done_flag = 0, updated_at = ''n0''\<rparr>,
         \<lparr>user_id = ''u1'', task_id = ''t3'', done_flag = 0, updated_at = ''n0''\<rparr>] ''u1''
      - group_task_ids (scenario_tasks [] [] [])
        \<lparr>body_user_id = ''u1'', body_action_id = ''task_toggle_g1'',
          body_selected_options = Some [\<lparr>opt_text = Plain_text [], opt_value = ''t3''\<rparr>]\<rparr>)
     \<union> (selected_ids
        \<lparr>body_user_id = ''u1'', body_action_id = ''task_toggle_g1'',
          body_selected_options = Some [\<lparr>opt_text = Plain_text [], opt_value = ''t3''\<rparr>]\<rparr>
        \<inter> group_task_ids (scenario_tasks [] [] [])
        \<lparr>body_user_id = ''u1'', body_action_id = ''task_toggle_g1'',
          body_selected_options = Some [\<lparr>opt_text = Plain_text [], opt_value = ''t3''\<rparr>]\<rparr>)"
  by (simp add: eval_defs)

text \<open>
  Claim C2, as the code has it. When the action id names no catalog group, the group's
  task ids are empty and nothing is removed from the completed set; the selected values
  that are catalog ids are still added. The completed set is unchanged when every such
  value was completed already, as with an empty selection. The handler raises nothing
  and publishes the view of the table it leaves, after the acknowledgement.
\<close>

theorem toggle_unknown_group:
  assumes "group_key body \<notin> (\<lambda>t. lower (group t)) ` set tasks"
  shows "group_task_ids tasks body = {}
   \<and> get_done_set (store (handle_toggle_any_group tasks res now1 now2 body conn))
         (body_user_id body) =
       get_done_set conn (body_user_id body) \<union> (selected_ids body \<inter> id_t ` set tasks)
   \<and> (selected_ids body \<inter> id_t ` set tasks \<subseteq> get_done_set conn (body_user_id body) \<longrightarrow>
        get_done_set (store (handle_toggle_any_group tasks res now1 now2 body conn))
          (body_user_id body) = get_done_set conn (body_user_id body))
   \<and> raised (handle_toggle_any_group tasks res now1 now2 body conn) = None
   \<and> (\<exists>v. build_home_view tasks res
          (store (handle_toggle_any_group tasks res now1 now2 body conn))
          (body_user_id body) = Inr v \<and>
        effects (handle_toggle_any_group tasks res now1 now2 body conn) =
          [Ack, Views_publish (body_user_id body) v])"
proof -
  have g: "group_task_ids tasks body = {}"
    using assms by (force simp add: group_task_ids_def image_iff filter_empty_conv)
  have d: "get_done_set (store (handle_toggle_any_group tasks res now1 now2 body conn))
         (body_user_id body) =
       get_done_set conn (body_user_id body) \<union> (selected_ids body \<inter> id_t ` set tasks)"
    unfolding toggle_done_set g by simp
  have s: "selected_ids body \<inter> id_t ` set tasks \<subseteq> get_done_set conn (body_user_id body) \<longrightarrow>
        get_done_set (store (handle_toggle_any_group tasks res now1 now2 body conn))
          (body_user_id body) = get_done_set conn (body_user_id body)"
    unfolding d by blast
  from g d s raised_handle_toggle_any_group [of tasks res now1 now2 body conn]
    effects_handle_toggle_any_group [of tasks res now1 now2 body conn]
  show ?thesis by (intro conjI)
qed

theorem toggle_unknown_group_witness:
  "group_key \<lparr>body_user_id = ''u1'', body_action_id = ''task_toggle_nosuch'',
          body_selected_options = Some []\<rparr>
     \<notin> (\<lambda>t. lower (group t)) ` set (scenario_tasks [] [] [])
   \<and> get_done_set
     (store (handle_toggle_any_group (scenario_tasks [] [] []) RESOURCES ''n1'' ''n2''
        \<lparr>body_user_id = ''u1'', body_action_id = ''task_toggle_nosuch'',
          body_selected_options = Some []\<rparr>
        [\<lparr>user_id = ''u1'', task_id = ''t1'', done_flag = 1, updated_at = ''n0''\<rparr>,
         \<lparr>user_id = ''u1'', task_id = ''t2'', done_flag = 0, updated_at = ''n0''\<rparr>,
         \<lparr>user_id = ''u1'', task_id = ''t3'', done_flag = 0, updated_at = ''n0''\<rparr>]))
     ''u1'' = {''t1''}"
proof -
  have h: "group_key \<lparr>body_user_id = ''u1'', body_action_id = ''task_toggle_nosuch'',
          body_selected_options = Some []\<rparr>
     \<notin> (\<lambda>t. lower (group t)) ` set (scenario_tasks [] [] [])"
    by (simp add: group_key_def scenario_tasks_def lower_G1 lower_G2)
  from toggle_unknown_group [OF h, of RESOURCES "''n1''" "''n2''"
        "[\<lparr>user_id = ''u1'', task_id = ''t1'', done_flag = 1, updated_at = ''n0''\<rparr>,
         \<lparr>user_id = ''u1'', task_id = ''t2'', done_flag = 0, updated_at = ''n0''\<rparr>,
         \<lparr>user_id = ''u1'', task_id = ''t3'', done_flag = 0, updated_at = ''n0''\<rparr>]"]
  have "get_done_set
     (store (handle_toggle_any_group (scenario_tasks [] [] []) RESOURCES ''n1'' ''n2''
        \<lparr>body_user_id = ''u1'', body_action_id = ''task_toggle_nosuch'',
          body_selected_options = Some []\<rparr>
        [\<lparr>user_id = ''u1'', task_id = ''t1'', done_flag = 1, updated_at = ''n0''\<rparr>,
         \<lparr>user_id = ''u1'', task_id = ''t2'', done_flag = 0, updated_at = ''n0''\<rparr>,
         \<lparr>user_id = ''u1'', task_id = ''t3'', done_flag = 0, updated_at = ''n0''\<rparr>]))
     ''u1'' = {''t1''}"
    by (simp add: get_done_set_def selected_ids_def)
  with h show ?thesis by (intro conjI)
qed

text \<open>
  The claim as stated fails: the action id \<open>task_toggle_nosuch\<close> names no group of the
  scenario catalog, the user has completed nothing, and the payload selects \<open>t1\<close>. The
  completed set is \<open>{t1}\<close> afterwards.
\<close>

theorem toggle_unknown_group_counterexample:
  "group_task_ids (scenario_tasks [] [] [])
        \<lparr>body_user_id = ''u1'', body_action_id = ''task_toggle_nosuch'',
          body_selected_options = Some [\<lparr>opt_text = Plain_text [], opt_value = ''t1''\<rparr>]\<rparr> = {}
   \<and> get_done_set
        [\<lparr>user_id = ''u1'', task_id = ''t1'', done_flag = 0, updated_at = ''n0''\<rparr>,
         \<lparr>user_id = ''u1'', task_id = ''t2'', done_flag = 0, updated_at = ''n0''\<rparr>,
         \<lparr>user_id = ''u1'', task_id = ''t3'', done_flag = 0, updated_at = ''n0''\<rparr>] ''u1'' = {}
   \<and> get_done_set
     (store (handle_toggle_any_group (scenario_tasks [] [] []) RESOURCES ''n1'' ''n2''
        \<lparr>body_user_id = ''u1'', body_action_id = ''task_toggle_nosuch'',
          body_selected_options = Some [\<lparr>opt_text = Plain_text [], opt_value = ''t1''\<rparr>]\<rparr>
        [\<lparr>user_id = ''u1'', task_id = ''t1'', done_flag = 0, updated_at = ''n0''\<rparr>,
         \<lparr>user_id = ''u1'', task_id = ''t2'', done_flag = 0, updated_at = ''n0''\<rparr>,
         \<lparr>user_id = ''u1'', task_id = ''t3'', done_flag = 0, updated_at = ''n0''\<rparr>]))
     ''u1'' = {''t1''}"
  by (simp add: eval_defs)

text \<open>
  Claim C4, as the code has it. The handler finds the group by comparing the lowered
  group names of the catalog with what follows \<open>task_toggle_\<close> in the action id. For
  an action id that is \<open>task_toggle_\<close> followed by the lowered name of \<open>g\<close>, as the
  view renders it, the group's task ids are those of all catalog tasks whose group
  matches \<open>g\<close> case-insensitively; they are the ids of the tasks of \<open>g\<close> itself when no
  other group of the catalog differs from \<open>g\<close> in letter case only. When the selected
  values are all among these ids, the completed set afterwards is the old one without
  them, together with the selection: outside these ids it is as before, and inside them
  it is exactly the selection.
\<close>

theorem toggle_group_isolation:
  assumes "body_action_id body = ''task_toggle_'' @ lower g"
    and "selected_ids body \<subseteq> id_t ` {t \<in> set tasks. lower (group t) = lower g}"
  shows "group_task_ids tasks body = id_t ` {t \<in> set tasks. lower (group t) = lower g}
   \<and> get_done_set (store (handle_toggle_any_group tasks res now1 now2 body conn))
         (body_user_id body) =
       (get_done_set conn (body_user_id body) - group_task_ids tasks body) \<union> selected_ids body
   \<and> get_done_set (store (handle_toggle_any_group tasks res now1 now2 body conn))
         (body_user_id body) - group_task_ids tasks body =
       get_done_set conn (body_user_id body) - group_task_ids tasks body
   \<and> get_done_set (store (handle_toggle_any_group tasks res now1 now2 body conn))
         (body_user_id body) \<inter> group_task_ids tasks body = selected_ids body
   \<and> ((\<forall>t\<in>set tasks. lower (group t) = lower g \<longrightarrow> group t = g) \<longrightarrow>
        group_task_ids tasks body = id_t ` {t \<in> set tasks. group t = g})"
proof -
  have k: "group_key body = lower g"
    unfolding group_key_def assms(1) by (rule replace_first_task_toggle)
  have g: "group_task_ids tasks body = id_t ` {t \<in> set tasks. lower (group t) = lower g}"
    unfolding group_task_ids_def k by auto
  have sub: "selected_ids body \<subseteq> group_task_ids tasks body"
    unfolding g by (rule assms(2))
  have ids: "group_task_ids tasks body \<subseteq> id_t ` set tasks"
    by (rule group_task_ids_subset)
  have d: "get_done_set (store (handle_toggle_any_group tasks res now1 now2 body conn))
         (body_user_id body) =
       (get_done_set conn (body_user_id body) - group_task_ids tasks body) \<union> selected_ids body"
    unfolding toggle_done_set using sub ids by blast
  have o: "get_done_set (store (handle_toggle_any_group tasks res now1 now2 body conn))
         (body_user_id body) - group_task_ids tasks body =
       get_done_set conn (body_user_id body) - group_task_ids tasks body"
    unfolding d using sub by blast
  have i: "get_done_set (store (handle_toggle_any_group tasks res now1 now2 body conn))
         (body_user_id body) \<inter> group_task_ids tasks body = selected_ids body"
    unfolding d using sub by blast
  have n: "(\<forall>t\<in>set tasks. lower (group t) = lower g \<longrightarrow> group t = g) \<longrightarrow>
        group_task_ids tasks body = id_t ` {t \<in> set tasks. group t = g}"
  proof
    assume a: "\<forall>t\<in>set tasks. lower (group t) = lower g \<longrightarrow> group t = g"
    have "{t \<in> set tasks. lower (group t) = lower g} = {t \<in> set tasks. group t = g}"
      using a by auto
    then show "group_task_ids tasks body = id_t ` {t \<in> set tasks. group t = g}"
      unfolding g by (rule arg_cong)
  qed
  from g d o i n show ?thesis by (intro conjI)
qed

text \<open>
  The instance of the specification: \<open>a1\<close> and \<open>a2\<close> in group \<open>A\<close>, \<open>b1\<close> in group \<open>B\<close>,
  the completed set is \<open>{a1, b1}\<close>, and group \<open>A\<close> is toggled with the selection \<open>{a2}\<close>.
\<close>

theorem toggle_group_isolation_witness:
  "get_done_set
     [\<lparr>user_id = ''u1'', task_id = ''a1'', done_flag = 1, updated_at = ''n0''\<rparr>,
      \<lparr>user_id = ''u1'', task_id = ''a2'', done_flag = 0, updated_at = ''n0''\<rparr>,
      \<lparr>user_id = ''u1'', task_id = ''b1'', done_flag = 1, updated_at = ''n0''\<rparr>] ''u1'' =
     {''a1'', ''b1''}
   \<and> get_done_set
     (store (handle_toggle_any_group
        [\<lparr>id_t = ''a1'', label = [], group = ''A''\<rparr>,
         \<lparr>id_t = ''a2'', label = [], group = ''A''\<rparr>,
         \<lparr>id_t = ''b1'', label = [], group = ''B''\<rparr>] RESOURCES ''n1'' ''n2''
        \<lparr>body_user_id = ''u1'', body_action_id = ''task_toggle_a'',
          body_selected_options = Some [\<lparr>opt_text = Plain_text [], opt_value = ''a2''\<rparr>]\<rparr>
        [\<lparr>user_id = ''u1'', task_id = ''a1'', done_flag = 1, updated_at = ''n0''\<rparr>,
         \<lparr>user_id = ''u1'', task_id = ''a2'', done_flag = 0, updated_at = ''n0''\<rparr>,
         \<lparr>user_id = ''u1'', task_id = ''b1'', done_flag = 1, updated_at = ''n0''\<rparr>]))
     ''u1'' = {''a2'', ''b1''}"
proof -
  have lA: "lower ''A'' = ''a''" by code_simp
  have lB: "lower ''B'' = ''b''" by code_simp
  have body_user_id_simp: "body_user_id \<lparr>body_user_id = ''u1'', body_action_id = ''task_toggle_a'',
          body_selected_options = Some [\<lparr>opt_text = Plain_text [], opt_value = ''a2''\<rparr>]\<rparr> = ''u1''"
    by simp
  have h1: "body_action_id \<lparr>body_user_id = ''u1'', body_action_id = ''task_toggle_a'',
          body_selected_options = Some [\<lparr>opt_text = Plain_text [], opt_value = ''a2''\<rparr>]\<rparr> =
       ''task_toggle_'' @ lower ''A''"
    by (simp add: lA)
  have h2: "selected_ids \<lparr>body_user_id = ''u1'', body_action_id = ''task_toggle_a'',
          body_selected_options = Some [\<lparr>opt_text = Plain_text [], opt_value = ''a2''\<rparr>]\<rparr>
     \<subseteq> id_t ` {t \<in> set [\<lparr>id_t = ''a1'', label = [], group = ''A''\<rparr>,
         \<lparr>id_t = ''a2'', label = [], group = ''A''\<rparr>,
         \<lparr>id_t = ''b1'', label = [], group = ''B''\<rparr>]. lower (group t) = lower ''A''}"
  proof -
    have "''a2'' = id_t \<lparr>id_t = ''a2'', label = [], group = ''A''\<rparr>"
      by simp
    moreover have "\<lparr>id_t = ''a2'', label = [], group = ''A''\<rparr>
        \<in> {t \<in> set [\<lparr>id_t = ''a1'', label = [], group = ''A''\<rparr>,
         \<lparr>id_t = ''a2'', label = [], group = ''A''\<rparr>,
         \<lparr>id_t = ''b1'', label = [], group = ''B''\<rparr>]. lower (group t) = lower ''A''}"
      by simp
    ultimately have "''a2'' \<in> id_t ` {t \<in> set [\<lparr>id_t = ''a1'', label = [], group = ''A''\<rparr>,
         \<lparr>id_t = ''a2'', label = [], group = ''A''\<rparr>,
         \<lparr>id_t = ''b1'', label = [], group = ''B''\<rparr>]. lower (group t) = lower ''A''}"
      by (rule image_eqI)
    then show ?thesis by (simp add: selected_ids_def)
  qed
  have b: "get_done_set
     [\<lparr>user_id = ''u1'', task_id = ''a1'', done_flag = 1, updated_at = ''n0''\<rparr>,
      \<lparr>user_id = ''u1'', task_id = ''a2'', done_flag = 0, updated_at = ''n0''\<rparr>,
      \<lparr>user_id = ''u1'', task_id = ''b1'', done_flag = 1, updated_at = ''n0''\<rparr>] ''u1'' =
     {''a1'', ''b1''}"
    by (simp add: get_done_set_def)
  have gk: "group_task_ids [\<lparr>id_t = ''a1'', label = [], group = ''A''\<rparr>,
         \<lparr>id_t = ''a2'', label = [], group = ''A''\<rparr>,
         \<lparr>id_t = ''b1'', label = [], group = ''B''\<rparr>]
        \<lparr>body_user_id = ''u1'', body_action_id = ''task_toggle_a'',
          body_selected_options = Some [\<lparr>opt_text = Plain_text [], opt_value = ''a2''\<rparr>]\<rparr> =
        {''a1'', ''a2''}"
    by (simp add: group_task_ids_def group_key_def lA lB)
  have sel: "selected_ids \<lparr>body_user_id = ''u1'', body_action_id = ''task_toggle_a'',
          body_selected_options = Some [\<lparr>opt_text = Plain_text [], opt_value = ''a2''\<rparr>]\<rparr> =
       {''a2''}"
    by (simp add: selected_ids_def)
  have "get_done_set
     (store (handle_toggle_any_group
        [\<lparr>id_t = ''a1'', label = [], group = ''A''\<rparr>,
         \<lparr>id_t = ''a2'', label = [], group = ''A''\<rparr>,
         \<lparr>id_t = ''b1'', label = [], group = ''B''\<rparr>] RESOURCES ''n1'' ''n2''
        \<lparr>body_user_id = ''u1'', body_action_id = ''task_toggle_a'',
          body_selected_options = Some [\<lparr>opt_text = Plain_text [], opt_value = ''a2''\<rparr>]\<rparr>
        [\<lparr>user_id = ''u1'', task_id = ''a1'', done_flag = 1, updated_at = ''n0''\<rparr>,
         \<lparr>user_id = ''u1'', task_id = ''a2'', done_flag = 0, updated_at = ''n0''\<rparr>,
         \<lparr>user_id = ''u1'', task_id = ''b1'', done_flag = 1, updated_at = ''n0''\<rparr>]))
     ''u1'' = ({''a1'', ''b1''} - {''a1'', ''a2''}) \<union> {''a2''}"
    using toggle_group_isolation [OF h1 h2, of RESOURCES "''n1''" "''n2''"
        "[\<lparr>user_id = ''u1'', task_id = ''a1'', done_flag = 1, updated_at = ''n0''\<rparr>,
         \<lparr>user_id = ''u1'', task_id = ''a2'', done_flag = 0, updated_at = ''n0''\<rparr>,
         \<lparr>user_id = ''u1'', task_id = ''b1'', done_flag = 1, updated_at = ''n0''\<rparr>]",
        THEN conjunct2, THEN conjunct1]
    unfolding gk sel b body_user_id_simp .
  also have "({''a1'', ''b1''} - {''a1'', ''a2''}) \<union> {''a2''} = {''a2'', ''b1''::string}"
    by auto
  finally have "get_done_set
     (store (handle_toggle_any_group
        [\<lparr>id_t = ''a1'', label = [], group = ''A''\<rparr>,
         \<lparr>id_t = ''a2'', label = [], group = ''A''\<rparr>,
         \<lparr>id_t = ''b1'', label = [], group = ''B''\<rparr>] RESOURCES ''n1'' ''n2''
        \<lparr>body_user_id = ''u1'', body_action_id = ''task_toggle_a'',
          body_selected_options = Some [\<lparr>opt_text = Plain_text [], opt_value = ''a2''\<rparr>]\<rparr>
        [\<lparr>user_id = ''u1'', task_id = ''a1'', done_flag = 1, updated_at = ''n0''\<rparr>,
         \<lparr>user_id = ''u1'', task_id = ''a2'', done_flag = 0, updated_at = ''n0''\<rparr>,
         \<lparr>user_id = ''u1'', task_id = ''b1'', done_flag = 1, updated_at = ''n0''\<rparr>]))
     ''u1'' = {''a2'', ''b1''}" .
  with b show ?thesis by (intro conjI)
qed

text \<open>
  The claim as stated fails for a catalog with the groups \<open>A\<close> and \<open>a\<close>: task \<open>a1\<close>
  is in group \<open>A\<close> and task \<open>x1\<close> in group \<open>a\<close>, and the user has completed \<open>x1\<close>.
  Group \<open>A\<close> is toggled with \<open>a1\<close> selected, a task of \<open>A\<close>. The handler takes both
  tasks for the group, and \<open>x1\<close>, which is outside \<open>A\<close>, is no longer completed.
\<close>

theorem toggle_group_isolation_counterexample:
  "group_task_ids
     [\<lparr>id_t = ''a1'', label = [], group = ''A''\<rparr>,
      \<lparr>id_t = ''x1'', label = [], group = ''a''\<rparr>]
     \<lparr>body_user_id = ''u1'', body_action_id = ''task_toggle_a'',
       body_selected_options = Some [\<lparr>opt_text = Plain_text [], opt_value = ''a1''\<rparr>]\<rparr> =
     {''a1'', ''x1''}
   \<and> selected_ids
     \<lparr>body_user_id = ''u1'', body_action_id = ''task_toggle_a'',
       body_selected_options = Some [\<lparr>opt_text = Plain_text [], opt_value = ''a1''\<rparr>]\<rparr> =
     {''a1''}
   \<and> get_done_set
     [\<lparr>user_id = ''u1'', task_id = ''a1'', done_flag = 0, updated_at = ''n0''\<rparr>,
      \<lparr>user_id = ''u1'', task_id = ''x1'', done_flag = 1, updated_at = ''n0''\<rparr>] ''u1'' =
     {''x1''}
   \<and> get_done_set
     (store (handle_toggle_any_group
        [\<lparr>id_t = ''a1'', label = [], group = ''A''\<rparr>,
         \<lparr>id_t = ''x1'', label = [], group = ''a''\<rparr>] RESOURCES ''n1'' ''n2''
        \<lparr>body_user_id = ''u1'', body_action_id = ''task_toggle_a'',
          body_selected_options = Some [\<lparr>opt_text = Plain_text [], opt_value = ''a1''\<rparr>]\<rparr>
        [\<lparr>user_id = ''u1'', task_id = ''a1'', done_flag = 0, updated_at = ''n0''\<rparr>,
         \<lparr>user_id = ''u1'', task_id = ''x1'', done_flag = 1, updated_at = ''n0''\<rparr>]))
     ''u1'' = {''a1''}"
proof -
  have lA: "lower ''A'' = ''a''" by code_simp
  have la: "lower ''a'' = ''a''" by code_simp
  show ?thesis
    by (simp add: store_handle_toggle_any_group set_done_bulk_def sql_update_def
          ensure_user_rows_def insert_or_ignore_def get_done_set_def group_task_ids_def
          group_key_def selected_ids_def lA la)
qed

text \<open>
  Claim C10. For a user with no row in the table \<open>get_done_set\<close> returns the empty set.
  A toggle handled for such a user reads an empty \<open>current_done\<close>, raises nothing,
  leaves a row for every catalog task, and stores as completed the selected values that
  are catalog ids.
\<close>

theorem toggle_before_initialization:
  assumes "\<not> list_ex (\<lambda>r. user_id r = body_user_id body) conn"
  shows "get_done_set conn (body_user_id body) = {}
   \<and> get_done_set (store (handle_toggle_any_group tasks res now1 now2 body conn))
         (body_user_id body) = selected_ids body \<inter> id_t ` set tasks
   \<and> raised (handle_toggle_any_group tasks res now1 now2 body conn) = None
   \<and> id_t ` set tasks \<subseteq>
       task_id ` {r \<in> set (store (handle_toggle_any_group tasks res now1 now2 body conn)).
                   user_id r = body_user_id body}"
proof -
  have e: "get_done_set conn (body_user_id body) = {}"
    using assms by (auto simp add: get_done_set_def list_ex_iff)
  have d: "get_done_set (store (handle_toggle_any_group tasks res now1 now2 body conn))
         (body_user_id body) = selected_ids body \<inter> id_t ` set tasks"
    unfolding toggle_done_set e by simp
  have r: "id_t ` set tasks \<subseteq>
       task_id ` {r \<in> set (store (handle_toggle_any_group tasks res now1 now2 body conn)).
                   user_id r = body_user_id body}"
  proof
    fix x assume "x \<in> id_t ` set tasks"
    then obtain t where t: "t \<in> set tasks" "x = id_t t" by blast
    from ensure_user_rows_has_row [OF t(1), of "body_user_id body" now1 conn]
    obtain r where r: "r \<in> set (ensure_user_rows tasks now1 (body_user_id body) conn)"
        "user_id r = body_user_id body" "task_id r = x"
      unfolding list_ex_iff t(2) by blast
    let ?f = "overwrite tasks now2 (body_user_id body)
       ((get_done_set conn (body_user_id body) - group_task_ids tasks body) \<union> selected_ids body)"
    have "?f r \<in> set (store (handle_toggle_any_group tasks res now1 now2 body conn))"
      unfolding store_handle_toggle_any_group set_done_bulk_eq using r(1) by simp
    moreover have "user_id (?f r) = body_user_id body" "task_id (?f r) = x"
      using r(2,3) by simp_all
    ultimately show "x \<in> task_id `
        {r \<in> set (store (handle_toggle_any_group tasks res now1 now2 body conn)).
           user_id r = body_user_id body}"
      by (metis (mono_tags, lifting) image_eqI mem_Collect_eq)
  qed
  from e d raised_handle_toggle_any_group [of tasks res now1 now2 body conn] r
  show ?thesis by (intro conjI)
qed

theorem toggle_before_initialization_witness:
  "\<not> list_ex (\<lambda>r. user_id r = body_user_id
        \<lparr>body_user_id = ''u1'', body_action_id = ''task_toggle_g1'',
          body_selected_options = Some [\<lparr>opt_text = Plain_text [], opt_value = ''t1''\<rparr>]\<rparr>)
       [\<lparr>user_id = ''u0'', task_id = ''t2'', done_flag = 1, updated_at = ''n0''\<rparr>]
   \<and> store (handle_toggle_any_group (scenario_tasks [] [] []) RESOURCES ''n1'' ''n2''
        \<lparr>body_user_id = ''u1'', body_action_id = ''task_toggle_g1'',
          body_selected_options = Some [\<lparr>opt_text = Plain_text [], opt_value = ''t1''\<rparr>]\<rparr>
        [\<lparr>user_id = ''u0'', task_id = ''t2'', done_flag = 1, updated_at = ''n0''\<rparr>]) =
       [\<lparr>user_id = ''u0'', task_id = ''t2'', done_flag = 1, updated_at = ''n0''\<rparr>,
        \<lparr>user_id = ''u1'', task_id = ''t1'', done_flag = 1, updated_at = ''n2''\<rparr>,
        \<lparr>user_id = ''u1'', task_id = ''t2'', done_flag = 0, updated_at = ''n2''\<rparr>,
        \<lparr>user_id = ''u1'', task_id = ''t3'', done_flag = 0, updated_at = ''n2''\<rparr>]
   \<and> get_done_set
     (store (handle_toggle_any_group (scenario_tasks [] [] []) RESOURCES ''n1'' ''n2''
        \<lparr>body_user_id = ''u1'', body_action_id = ''task_toggle_g1'',
          body_selected_options = Some [\<lparr>opt_text = Plain_text [], opt_value = ''t1''\<rparr>]\<rparr>
        [\<lparr>user_id = ''u0'', task_id = ''t2'', done_flag = 1, updated_at = ''n0''\<rparr>]))
     ''u1'' = {''t1''}"
proof -
  have h: "\<not> list_ex (\<lambda>r. user_id r = body_user_id
        \<lparr>body_user_id = ''u1'', body_action_id = ''task_toggle_g1'',
          body_selected_options = Some [\<lparr>opt_text = Plain_text [], opt_value = ''t1''\<rparr>]\<rparr>)
       [\<lparr>user_id = ''u0'', task_id = ''t2'', done_flag = 1, updated_at = ''n0''\<rparr>]"
    by simp
  have s: "store (handle_toggle_any_group (scenario_tasks [] [] []) RESOURCES ''n1'' ''n2''
        \<lparr>body_user_id = ''u1'', body_action_id = ''task_toggle_g1'',
          body_selected_options = Some [\<lparr>opt_text = Plain_text [], opt_value = ''t1''\<rparr>]\<rparr>
        [\<lparr>user_id = ''u0'', task_id = ''t2'', done_flag = 1, updated_at = ''n0''\<rparr>]) =
       [\<lparr>user_id = ''u0'', task_id = ''t2'', done_flag = 1, updated_at = ''n0''\<rparr>,
        \<lparr>user_id = ''u1'', task_id = ''t1'', done_flag = 1, updated_at = ''n2''\<rparr>,
        \<lparr>user_id = ''u1'', task_id = ''t2'', done_flag = 0, updated_at = ''n2''\<rparr>,
        \<lparr>user_id = ''u1'', task_id = ''t3'', done_flag = 0, updated_at = ''n2''\<rparr>]"
    by (simp add: eval_defs)
  from toggle_before_initialization [OF h, of "scenario_tasks [] [] []" RESOURCES "''n1''" "''n2''"]
  have "get_done_set
     (store (handle_toggle_any_group (scenario_tasks [] [] []) RESOURCES ''n1'' ''n2''
        \<lparr>body_user_id = ''u1'', body_action_id = ''task_toggle_g1'',
          body_selected_options = Some [\<lparr>opt_text = Plain_text [], opt_value = ''t1''\<rparr>]\<rparr>
        [\<lparr>user_id = ''u0'', task_id = ''t2'', done_flag = 1, updated_at = ''n0''\<rparr>]))
     ''u1'' = {''t1''}"
    by (simp add: selected_ids_def scenario_tasks_def)
  with h s show ?thesis by (intro conjI)
qed

section \<open>Rows outside the catalog\<close>

lemma overwrite_Int: "overwrite tasks now u (D \<inter> id_t ` set tasks) r = overwrite tasks now u D r"
  by (simp add: overwrite_def)

lemma overwrite_outside: "task_id r \<notin> id_t ` set tasks \<Longrightarrow> overwrite tasks now u D r = r"
  by (simp add: overwrite_def)

lemma filter_outside_set_done_bulk:
  "filter (\<lambda>r. task_id r \<notin> id_t ` set tasks) (set_done_bulk tasks now u D conn) =
     filter (\<lambda>r. task_id r \<notin> id_t ` set tasks) conn"
  unfolding set_done_bulk_eq
  by (induction conn) (simp_all add: overwrite_outside)

lemma filter_outside_ensure_user_rows:
  "filter (\<lambda>r. task_id r \<notin> id_t ` set tasks) (ensure_user_rows tasks now u conn) =
     filter (\<lambda>r. task_id r \<notin> id_t ` set tasks) conn"
proof -
  obtain new where
    n: "ensure_user_rows tasks now u conn = conn @ new"
       "set new = (\<lambda>tid. \<lparr>user_id = u, task_id = tid, done_flag = 0, updated_at = now\<rparr>) `
          {tid \<in> id_t ` set tasks. \<not> list_ex (\<lambda>r. user_id r = u \<and> task_id r = tid) conn}"
    using ensure_user_rows_append [of tasks now u conn] by (elim exE conjE)
  have "filter (\<lambda>r. task_id r \<notin> id_t ` set tasks) new = []"
    unfolding filter_empty_conv n(2) by auto
  then show ?thesis unfolding n(1) by simp
qed

lemma created_rows_inside_catalog:
  "task_id ` set (drop (length conn) (ensure_user_rows tasks now u conn)) \<subseteq> id_t ` set tasks"
proof -
  obtain new where
    n: "ensure_user_rows tasks now u conn = conn @ new"
       "set new = (\<lambda>tid. \<lparr>user_id = u, task_id = tid, done_flag = 0, updated_at = now\<rparr>) `
          {tid \<in> id_t ` set tasks. \<not> list_ex (\<lambda>r. user_id r = u \<and> task_id r = tid) conn}"
    using ensure_user_rows_append [of tasks now u conn] by (elim exE conjE)
  have d: "drop (length conn) (ensure_user_rows tasks now u conn) = new"
    unfolding n(1) by simp
  show ?thesis unfolding d n(2) by auto
qed

lemma store_handle_home_opened:
  "store (handle_home_opened tasks res now u conn) = ensure_user_rows tasks now u conn"
  by (simp add: handle_home_opened_def)

lemma store_handle_team_join:
  "store (handle_team_join tasks res now u conn) = ensure_user_rows tasks now u conn"
  by (simp add: handle_team_join_def)

lemma store_cmd_onboard:
  "store (cmd_onboard tasks res now u conn) = ensure_user_rows tasks now u conn"
  by (simp add: cmd_onboard_def)

text \<open>
  Claim C9. \<open>set_done_bulk\<close> adds and removes no row and changes no key; ids of its
  argument that are not catalog ids have no effect on the table; rows whose task is not
  in the catalog come out of \<open>set_done_bulk\<close> and of \<open>ensure_user_rows\<close> as they went in;
  every row that \<open>ensure_user_rows\<close> adds has a catalog id; and each of the four handlers
  leaves the rows outside the catalog as they were, so that no handler ever creates one.
\<close>

theorem writes_stay_inside_catalog:
  "map user_id (set_done_bulk tasks now u D conn) = map user_id conn
   \<and> map task_id (set_done_bulk tasks now u D conn) = map task_id conn
   \<and> set_done_bulk tasks now u D conn = set_done_bulk tasks now u (D \<inter> id_t ` set tasks) conn
   \<and> filter (\<lambda>r. task_id r \<notin> id_t ` set tasks) (set_done_bulk tasks now u D conn) =
       filter (\<lambda>r. task_id r \<notin> id_t ` set tasks) conn
   \<and> filter (\<lambda>r. task_id r \<notin> id_t ` set tasks) (ensure_user_rows tasks now u conn) =
       filter (\<lambda>r. task_id r \<notin> id_t ` set tasks) conn
   \<and> take (length conn) (ensure_user_rows tasks now u conn) = conn
   \<and> task_id ` set (drop (length conn) (ensure_user_rows tasks now u conn)) \<subseteq> id_t ` set tasks
   \<and> filter (\<lambda>r. task_id r \<notin> id_t ` set tasks)
         (store (handle_toggle_any_group tasks res now now2 body conn)) =
       filter (\<lambda>r. task_id r \<notin> id_t ` set tasks) conn
   \<and> filter (\<lambda>r. task_id r \<notin> id_t ` set tasks) (store (handle_home_opened tasks res now u conn)) =
       filter (\<lambda>r. task_id r \<notin> id_t ` set tasks) conn
   \<and> filter (\<lambda>r. task_id r \<notin> id_t ` set tasks) (store (handle_team_join tasks res now u conn)) =
       filter (\<lambda>r. task_id r \<notin> id_t ` set tasks) conn
   \<and> filter (\<lambda>r. task_id r \<notin> id_t ` set tasks) (store (cmd_onboard tasks res now u conn)) =
       filter (\<lambda>r. task_id r \<notin> id_t ` set tasks) conn"
proof (intro conjI)
  show "map user_id (set_done_bulk tasks now u D conn) = map user_id conn"
    unfolding set_done_bulk_eq by simp
  show "map task_id (set_done_bulk tasks now u D conn) = map task_id conn"
    unfolding set_done_bulk_eq by simp
  show "set_done_bulk tasks now u D conn = set_done_bulk tasks now u (D \<inter> id_t ` set tasks) conn"
    unfolding set_done_bulk_eq overwrite_Int ..
  show "filter (\<lambda>r. task_id r \<notin> id_t ` set tasks) (set_done_bulk tasks now u D conn) =
       filter (\<lambda>r. task_id r \<notin> id_t ` set tasks) conn"
    by (rule filter_outside_set_done_bulk)
  show "filter (\<lambda>r. task_id r \<notin> id_t ` set tasks) (ensure_user_rows tasks now u conn) =
       filter (\<lambda>r. task_id r \<notin> id_t ` set tasks) conn"
    by (rule filter_outside_ensure_user_rows)
  show "take (length conn) (ensure_user_rows tasks now u conn) = conn"
    using ensure_user_rows_append [of tasks now u conn] by (elim exE conjE) simp
  show "task_id ` set (drop (length conn) (ensure_user_rows tasks now u conn)) \<subseteq> id_t ` set tasks"
    by (rule created_rows_inside_catalog)
  show "filter (\<lambda>r. task_id r \<notin> id_t ` set tasks)
         (store (handle_toggle_any_group tasks res now now2 body conn)) =
       filter (\<lambda>r. task_id r \<notin> id_t ` set tasks) conn"
    unfolding store_handle_toggle_any_group filter_outside_set_done_bulk
      filter_outside_ensure_user_rows ..
  show "filter (\<lambda>r. task_id r \<notin> id_t ` set tasks) (store (handle_home_opened tasks res now u conn)) =
       filter (\<lambda>r. task_id r \<notin> id_t ` set tasks) conn"
    unfolding store_handle_home_opened by (rule filter_outside_ensure_user_rows)
  show "filter (\<lambda>r. task_id r \<notin> id_t ` set tasks) (store (handle_team_join tasks res now u conn)) =
       filter (\<lambda>r. task_id r \<notin> id_t ` set tasks) conn"
    unfolding store_handle_team_join by (rule filter_outside_ensure_user_rows)
  show "filter (\<lambda>r. task_id r \<notin> id_t ` set tasks) (store (cmd_onboard tasks res now u conn)) =
       filter (\<lambda>r. task_id r \<notin> id_t ` set tasks) conn"
    unfolding store_cmd_onboard by (rule filter_outside_ensure_user_rows)
qed

text \<open>
  An instance: the table holds a row of \<open>u1\<close> for \<open>zz\<close>, which is no task of the scenario
  catalog, and \<open>set_done_bulk\<close> is given \<open>{t1, yy}\<close>. No row for \<open>yy\<close> appears, and the
  row of \<open>zz\<close> keeps its flag and its time.
\<close>

theorem writes_stay_inside_catalog_witness:
  "set_done_bulk (scenario_tasks [] [] []) ''n2'' ''u1'' {''t1'', ''yy''}
     [\<lparr>user_id = ''u1'', task_id = ''zz'', done_flag = 1, updated_at = ''old''\<rparr>,
      \<lparr>user_id = ''u1'', task_id = ''t1'', done_flag = 0, updated_at = ''n0''\<rparr>,
      \<lparr>user_id = ''u1'', task_id = ''t2'', done_flag = 1, updated_at = ''n0''\<rparr>] =
     [\<lparr>user_id = ''u1'', task_id = ''zz'', done_flag = 1, updated_at = ''old''\<rparr>,
      \<lparr>user_id = ''u1'', task_id = ''t1'', done_flag = 1, updated_at = ''n2''\<rparr>,
      \<lparr>user_id = ''u1'', task_id = ''t2'', done_flag = 0, updated_at = ''n2''\<rparr>]
   \<and> set_done_bulk (scenario_tasks [] [] []) ''n2'' ''u1''
       ({''t1'', ''yy''} \<inter> id_t ` set (scenario_tasks [] [] []))
     [\<lparr>user_id = ''u1'', task_id = ''zz'', done_flag = 1, updated_at = ''old''\<rparr>,
      \<lparr>user_id = ''u1'', task_id = ''t1'', done_flag = 0, updated_at = ''n0''\<rparr>,
      \<lparr>user_id = ''u1'', task_id = ''t2'', done_flag = 1, updated_at = ''n0''\<rparr>] =
     [\<lparr>user_id = ''u1'', task_id = ''zz'', done_flag = 1, updated_at = ''old''\<rparr>,
      \<lparr>user_id = ''u1'', task_id = ''t1'', done_flag = 1, updated_at = ''n2''\<rparr>,
      \<lparr>user_id = ''u1'', task_id = ''t2'', done_flag = 0, updated_at = ''n2''\<rparr>]"
proof -
  have e: "set_done_bulk (scenario_tasks [] [] []) ''n2'' ''u1'' {''t1'', ''yy''}
     [\<lparr>user_id = ''u1'', task_id = ''zz'', done_flag = 1, updated_at = ''old''\<rparr>,
      \<lparr>user_id = ''u1'', task_id = ''t1'', done_flag = 0, updated_at = ''n0''\<rparr>,
      \<lparr>user_id = ''u1'', task_id = ''t2'', done_flag = 1, updated_at = ''n0''\<rparr>] =
     [\<lparr>user_id = ''u1'', task_id = ''zz'', done_flag = 1, updated_at = ''old''\<rparr>,
      \<lparr>user_id = ''u1'', task_id = ''t1'', done_flag = 1, updated_at = ''n2''\<rparr>,
      \<lparr>user_id = ''u1'', task_id = ''t2'', done_flag = 0, updated_at = ''n2''\<rparr>]"
    by (simp add: set_done_bulk_def sql_update_def scenario_tasks_def)
  note t = writes_stay_inside_catalog
     [of "scenario_tasks [] [] []" "''n2''" "''u1''" "{''t1'', ''yy''}"
         "[\<lparr>user_id = ''u1'', task_id = ''zz'', done_flag = 1, updated_at = ''old''\<rparr>,
           \<lparr>user_id = ''u1'', task_id = ''t1'', done_flag = 0, updated_at = ''n0''\<rparr>,
           \<lparr>user_id = ''u1'', task_id = ''t2'', done_flag = 1, updated_at = ''n0''\<rparr>]",
      THEN conjunct2, THEN conjunct2, THEN conjunct1]
  show ?thesis
    by (rule conjI [OF e]) (rule trans [OF t [symmetric] e])
qed

section \<open>The rendered view\<close>

lemma str_nat_0: "str_nat 0 = ''0''" by code_simp
lemma str_nat_1: "str_nat 1 = ''1''" by code_simp
lemma str_nat_2: "str_nat 2 = ''2''" by code_simp
lemma str_nat_3: "str_nat 3 = ''3''" by code_simp
lemma str_nat_Suc_0: "str_nat (Suc 0) = ''1''" by code_simp
lemma str_nat_Suc_Suc_0: "str_nat (Suc (Suc 0)) = ''2''"
  using str_nat_2 by (simp only: numeral_2_eq_2)
lemma str_nat_Suc_Suc_Suc_0: "str_nat (Suc (Suc (Suc 0))) = ''3''"
  using str_nat_3 by (simp only: numeral_3_eq_3)
lemmas str_nat_evals =
  str_nat_0 str_nat_1 str_nat_2 str_nat_3 str_nat_Suc_0 str_nat_Suc_Suc_0 str_nat_Suc_Suc_Suc_0

lemma rendered_blocks_build_home_view:
  "rendered_blocks (build_home_view tasks res conn u) =
     intro_blocks tasks (get_done_set conn u)
       @ concat (map (group_section tasks (get_done_set conn u))
           (first_occurrences (map group tasks)))
       @ [Context [Mrkdwn (''Resources: '' @ resources_md res)]]"
  by (simp add: rendered_blocks_def build_home_view_eq)

lemma checkbox_elements_append:
  "checkbox_elements (xs @ ys) = checkbox_elements xs @ checkbox_elements ys"
  by (simp add: checkbox_elements_def)

lemma checkbox_elements_intro_blocks: "checkbox_elements (intro_blocks tasks done) = []"
  by (simp add: checkbox_elements_def intro_blocks_def)

lemma checkbox_elements_group_sections:
  "checkbox_elements (concat (map (group_section tasks done) names)) =
     map (\<lambda>g. \<lparr>action_id = ''task_toggle_'' @ lower g,
               options = map option_of_task (filter (\<lambda>t. group t = g) tasks),
               initial_options =
                 (if filter (\<lambda>t. group t = g \<and> id_t t \<in> done) tasks = [] then None
                  else Some (map option_of_task
                         (filter (\<lambda>t. group t = g \<and> id_t t \<in> done) tasks)))\<rparr>) names"
  by (induction names)
     (simp_all add: checkbox_elements_def group_section_def Let_def)

lemma checkbox_elements_build_home_view:
  "checkbox_elements (rendered_blocks (build_home_view tasks res conn u)) =
     map (\<lambda>g. \<lparr>action_id = ''task_toggle_'' @ lower g,
               options = map option_of_task (filter (\<lambda>t. group t = g) tasks),
               initial_options =
                 (if filter (\<lambda>t. group t = g \<and> id_t t \<in> get_done_set conn u) tasks = []
                  then None
                  else Some (map option_of_task
                         (filter (\<lambda>t. group t = g \<and> id_t t \<in> get_done_set conn u) tasks)))\<rparr>)
       (group_names_in_order tasks)"
  unfolding rendered_blocks_build_home_view checkbox_elements_append
    checkbox_elements_intro_blocks checkbox_elements_group_sections group_names_in_order_eq
  by (simp add: checkbox_elements_def)

text \<open>
  Claim C6. The view has one checkbox element for each group, in the order of
  \<open>group_names_in_order\<close>. The element of a group with no completed task has no
  \<open>initial_options\<close> key; the element of a group with a completed task has the key, bound
  to the options of exactly that group's completed tasks. No element has the key bound to
  the empty list.
\<close>

theorem initial_options_omitted_when_empty:
  "map (\<lambda>el. (action_id el, initial_options el))
       (checkbox_elements (rendered_blocks (build_home_view tasks res conn u))) =
     map (\<lambda>g. (''task_toggle_'' @ lower g,
               if filter (\<lambda>t. group t = g \<and> id_t t \<in> get_done_set conn u) tasks = []
               then None
               else Some (map option_of_task
                      (filter (\<lambda>t. group t = g \<and> id_t t \<in> get_done_set conn u) tasks))))
       (group_names_in_order tasks)
   \<and> Some [] \<notin> initial_options `
        set (checkbox_elements (rendered_blocks (build_home_view tasks res conn u)))
   \<and> (\<exists>v. build_home_view tasks res conn u = Inr v)"
proof (intro conjI)
  show "map (\<lambda>el. (action_id el, initial_options el))
       (checkbox_elements (rendered_blocks (build_home_view tasks res conn u))) =
     map (\<lambda>g. (''task_toggle_'' @ lower g,
               if filter (\<lambda>t. group t = g \<and> id_t t \<in> get_done_set conn u) tasks = []
               then None
               else Some (map option_of_task
                      (filter (\<lambda>t. group t = g \<and> id_t t \<in> get_done_set conn u) tasks))))
       (group_names_in_order tasks)"
    unfolding checkbox_elements_build_home_view by (simp add: comp_def)
  show "Some [] \<notin> initial_options `
        set (checkbox_elements (rendered_blocks (build_home_view tasks res conn u)))"
    unfolding checkbox_elements_build_home_view by (auto split: if_splits)
  show "\<exists>v. build_home_view tasks res conn u = Inr v"
    unfolding build_home_view_eq by simp
qed

theorem initial_options_omitted_when_empty_witness:
  "map (\<lambda>el. (action_id el, initial_options el))
       (checkbox_elements (rendered_blocks (build_home_view (scenario_tasks ''a'' ''b'' ''c'')
          RESOURCES
          [\<lparr>user_id = ''u1'', task_id = ''t1'', done_flag = 1, updated_at = ''n0''\<rparr>,
           \<lparr>user_id = ''u1'', task_id = ''t3'', done_flag = 0, updated_at = ''n0''\<rparr>] ''u1''))) =
     [(''task_toggle_g1'', Some [\<lparr>opt_text = Plain_text ''a'', opt_value = ''t1''\<rparr>]),
      (''task_toggle_g2'', None)]"
  using initial_options_omitted_when_empty
    [of "scenario_tasks ''a'' ''b'' ''c''" RESOURCES
        "[\<lparr>user_id = ''u1'', task_id = ''t1'', done_flag = 1, updated_at = ''n0''\<rparr>,
          \<lparr>user_id = ''u1'', task_id = ''t3'', done_flag = 0, updated_at = ''n0''\<rparr>]" "''u1''",
     THEN conjunct1]
  by (simp add: group_names_in_order_def scenario_tasks_def get_done_set_def
        option_of_task_def lower_G1 lower_G2)

text \<open>
  Claim C8, as the code has it. The view is the three opening blocks, then for each group,
  in the order of first occurrence in the catalog, a section and a checkbox element, then
  the resources line. The section of group \<open>g\<close> reads \<open>*g* (c/n)\<close>, the group name
  between the asterisks of mrkdwn bold, where \<open>c\<close> counts the group's tasks whose id is
  completed and \<open>n\<close> the group's tasks. The options of the element are the group's tasks
  in catalog order, each with its label and its id.
\<close>

theorem build_home_view_groups:
  "group_names_in_order tasks = first_occurrences (map group tasks)
   \<and> build_home_view tasks res conn u =
     Inr (Home
       ([Header (Plain_text ''TMS Onboarding Checklist''),
         Section (Mrkdwn ''Welcome to The Movement Street. Check items as you complete them. Your progress saves automatically.''),
         Section (Mrkdwn (''*Progress:* '' @ str_nat (card (get_done_set conn u)) @ ''/''
            @ str_nat (length tasks) @ '' completed''))]
        @ concat (map (\<lambda>g.
            [Section (Mrkdwn (''*'' @ g @ ''* (''
               @ str_nat (length (filter (\<lambda>t. group t = g \<and> id_t t \<in> get_done_set conn u) tasks))
               @ ''/'' @ str_nat (length (filter (\<lambda>t. group t = g) tasks)) @ '')'')),
             Actions [\<lparr>action_id = ''task_toggle_'' @ lower g,
                options = map (\<lambda>t. \<lparr>opt_text = Plain_text (label t), opt_value = id_t t\<rparr>)
                            (filter (\<lambda>t. group t = g) tasks),
                initial_options =
                  (if filter (\<lambda>t. group t = g \<and> id_t t \<in> get_done_set conn u) tasks = []
                   then None
                   else Some (map (\<lambda>t. \<lparr>opt_text = Plain_text (label t), opt_value = id_t t\<rparr>)
                     (filter (\<lambda>t. group t = g \<and> id_t t \<in> get_done_set conn u) tasks)))\<rparr>]])
            (group_names_in_order tasks))
        @ [Context [Mrkdwn (''Resources: '' @ resources_md res)]]))"
proof -
  have o: "option_of_task = (\<lambda>t. \<lparr>opt_text = Plain_text (label t), opt_value = id_t t\<rparr>)"
    by (rule ext) (simp add: option_of_task_def)
  have s: "group_section tasks (get_done_set conn u) =
    (\<lambda>g. [Section (Mrkdwn (''*'' @ g @ ''* (''
               @ str_nat (length (filter (\<lambda>t. group t = g \<and> id_t t \<in> get_done_set conn u) tasks))
               @ ''/'' @ str_nat (length (filter (\<lambda>t. group t = g) tasks)) @ '')'')),
             Actions [\<lparr>action_id = ''task_toggle_'' @ lower g,
                options = map (\<lambda>t. \<lparr>opt_text = Plain_text (label t), opt_value = id_t t\<rparr>)
                            (filter (\<lambda>t. group t = g) tasks),
                initial_options =
                  (if filter (\<lambda>t. group t = g \<and> id_t t \<in> get_done_set conn u) tasks = []
                   then None
                   else Some (map (\<lambda>t. \<lparr>opt_text = Plain_text (label t), opt_value = id_t t\<rparr>)
                     (filter (\<lambda>t. group t = g \<and> id_t t \<in> get_done_set conn u) tasks)))\<rparr>]])"
    by (rule ext) (simp add: group_section_def Let_def o)
  show ?thesis
    unfolding build_home_view_eq s group_names_in_order_eq
    by (simp add: intro_blocks_def progress_text_def)
qed

text \<open>
  The scenario catalog with \<open>t1\<close> completed: the groups come as \<open>G1\<close>, \<open>G2\<close>, and the
  sections read \<open>*G1* (1/2)\<close> and \<open>*G2* (0/1)\<close>.
\<close>

theorem build_home_view_groups_witness:
  "group_names_in_order (scenario_tasks ''a'' ''b'' ''c'') = [''G1'', ''G2'']
   \<and> rendered_blocks (build_home_view (scenario_tasks ''a'' ''b'' ''c'') RESOURCES
       [\<lparr>user_id = ''u1'', task_id = ''t1'', done_flag = 1, updated_at = ''n0''\<rparr>] ''u1'') =
     [Header (Plain_text ''TMS Onboarding Checklist''),
      Section (Mrkdwn ''Welcome to The Movement Street. Check items as you complete them. Your progress saves automatically.''),
      Section (Mrkdwn ''*Progress:* 1/3 completed''),
      Section (Mrkdwn ''*G1* (1/2)''),
      Actions [\<lparr>action_id = ''task_toggle_g1'',
         options = [\<lparr>opt_text = Plain_text ''a'', opt_value = ''t1''\<rparr>,
                    \<lparr>opt_text = Plain_text ''b'', opt_value = ''t2''\<rparr>],
         initial_options = Some [\<lparr>opt_text = Plain_text ''a'', opt_value = ''t1''\<rparr>]\<rparr>],
      Section (Mrkdwn ''*G2* (0/1)''),
      Actions [\<lparr>action_id = ''task_toggle_g2'',
         options = [\<lparr>opt_text = Plain_text ''c'', opt_value = ''t3''\<rparr>],
         initial_options = None\<rparr>],
      Context [Mrkdwn (''Resources: '' @ resources_md RESOURCES)]]"
proof -
  have n: "group_names_in_order (scenario_tasks ''a'' ''b'' ''c'') = [''G1'', ''G2'']"
    by (simp add: group_names_in_order_def scenario_tasks_def)
  have d: "get_done_set
       [\<lparr>user_id = ''u1'', task_id = ''t1'', done_flag = 1, updated_at = ''n0''\<rparr>] ''u1'' = {''t1''}"
    by (simp add: get_done_set_def)
  note t = build_home_view_groups [of "scenario_tasks ''a'' ''b'' ''c''" RESOURCES
       "[\<lparr>user_id = ''u1'', task_id = ''t1'', done_flag = 1, updated_at = ''n0''\<rparr>]" "''u1''",
       THEN conjunct2]
  have "rendered_blocks (build_home_view (scenario_tasks ''a'' ''b'' ''c'') RESOURCES
       [\<lparr>user_id = ''u1'', task_id = ''t1'', done_flag = 1, updated_at = ''n0''\<rparr>] ''u1'') =
     [Header (Plain_text ''TMS Onboarding Checklist''),
      Section (Mrkdwn ''Welcome to The Movement Street. Check items as you complete them. Your progress saves automatically.''),
      Section (Mrkdwn ''*Progress:* 1/3 completed''),
      Section (Mrkdwn ''*G1* (1/2)''),
      Actions [\<lparr>action_id = ''task_toggle_g1'',
         options = [\<lparr>opt_text = Plain_text ''a'', opt_value = ''t1''\<rparr>,
                    \<lparr>opt_text = Plain_text ''b'', opt_value = ''t2''\<rparr>],
         initial_options = Some [\<lparr>opt_text = Plain_text ''a'', opt_value = ''t1''\<rparr>]\<rparr>],
      Section (Mrkdwn ''*G2* (0/1)''),
      Actions [\<lparr>action_id = ''task_toggle_g2'',
         options = [\<lparr>opt_text = Plain_text ''c'', opt_value = ''t3''\<rparr>],
         initial_options = None\<rparr>],
      Context [Mrkdwn (''Resources: '' @ resources_md RESOURCES)]]"
    unfolding t n d rendered_blocks_def
    by (simp add: scenario_tasks_def lower_G1 lower_G2 str_nat_evals)
  with n show ?thesis by (intro conjI)
qed

text \<open>
  The claim as stated fails on the text of the section: for the scenario catalog and a
  user with nothing completed, the section of \<open>G1\<close> reads \<open>*G1* (0/2)\<close>, and no block
  of the view reads \<open>G1 (0/2)\<close>.
\<close>

theorem group_header_counterexample:
  "rendered_blocks (build_home_view (scenario_tasks [] [] []) RESOURCES [] ''u1'') ! 3 =
     Section (Mrkdwn ''*G1* (0/2)'')
   \<and> Section (Mrkdwn ''G1 (0/2)'') \<notin>
       set (rendered_blocks (build_home_view (scenario_tasks [] [] []) RESOURCES [] ''u1''))"
  unfolding rendered_blocks_build_home_view
  by (simp add: scenario_tasks_def intro_blocks_def group_section_def Let_def get_done_set_def
        str_nat_evals)

section \<open>The end-to-end scenario\<close>

lemma progress_line_publish_home_view:
  "map (\<lambda>v. view_blocks v ! 2) (published_views (publish_home_view tasks res conn u sent)) =
     map (\<lambda>v. view_blocks v ! 2) (published_views \<lparr>store = conn, effects = sent, raised = None\<rparr>)
     @ [Section (Mrkdwn (''*Progress:* '' @ progress_text tasks (get_done_set conn u)))]"
  by (simp add: publish_home_view_eq published_views_def intro_blocks_def)

lemma progress_line_handle_home_opened:
  "map (\<lambda>v. view_blocks v ! 2) (published_views (handle_home_opened tasks res now u conn)) =
     [Section (Mrkdwn (''*Progress:* '' @
        progress_text tasks (get_done_set (store (handle_home_opened tasks res now u conn)) u)))]"
  unfolding handle_home_opened_def progress_line_publish_home_view
  by (simp add: published_views_def)

lemma progress_line_handle_toggle_any_group:
  "map (\<lambda>v. view_blocks v ! 2)
       (published_views (handle_toggle_any_group tasks res now1 now2 body conn)) =
     [Section (Mrkdwn (''*Progress:* '' @
        progress_text tasks
          (get_done_set (store (handle_toggle_any_group tasks res now1 now2 body conn))
             (body_user_id body))))]"
  unfolding handle_toggle_any_group_def Let_def progress_line_publish_home_view
  by (simp add: published_views_def)

lemma scenario_ids: "id_t ` set (scenario_tasks l1 l2 l3) = {''t1'', ''t2'', ''t3''}"
  by (simp add: scenario_tasks_def)

lemma scenario_group_g1:
  "group_task_ids (scenario_tasks l1 l2 l3)
     \<lparr>body_user_id = u, body_action_id = ''task_toggle_g1'', body_selected_options = s\<rparr> =
   {''t1'', ''t2''}"
  by (simp add: group_task_ids_def group_key_def scenario_tasks_def lower_G1 lower_G2)

lemma scenario_group_g2:
  "group_task_ids (scenario_tasks l1 l2 l3)
     \<lparr>body_user_id = u, body_action_id = ''task_toggle_g2'', body_selected_options = s\<rparr> =
   {''t3''}"
  by (simp add: group_task_ids_def group_key_def scenario_tasks_def lower_G1 lower_G2)

lemma scenario_progress:
  "progress_text (scenario_tasks l1 l2 l3) {} = ''0/3 completed''"
  "progress_text (scenario_tasks l1 l2 l3) {''t1''} = ''1/3 completed''"
  "progress_text (scenario_tasks l1 l2 l3) {''t1'', ''t3''} = ''2/3 completed''"
  "progress_text (scenario_tasks l1 l2 l3) {''t3''} = ''1/3 completed''"
  by (simp_all add: progress_text_def scenario_tasks_def str_nat_evals)

text \<open>
  Claim C3, as the code has it. The scenario of the specification, for a user with no
  row in the table: the home is opened (which runs \<open>ensure_user_rows\<close>), group \<open>G1\<close> is toggled with \<open>t1\<close>
  selected, group \<open>G2\<close> with \<open>t3\<close> selected, and group \<open>G1\<close> with nothing selected. The
  completed sets are \<open>{}\<close>, \<open>{t1}\<close>, \<open>{t1, t3}\<close>, \<open>{t3}\<close>. Each step publishes one view,
  whose progress block is the label \<open>*Progress:*\<close> followed by \<open>0/3 completed\<close>,
  \<open>1/3 completed\<close>, \<open>2/3 completed\<close>, \<open>1/3 completed\<close>. Labels, resources, clock
  readings, the texts of the selected options and the rows of other users are arbitrary.
\<close>

theorem end_to_end_scenario:
  assumes "\<not> list_ex (\<lambda>r. user_id r = u) conn"
  shows
    "let tasks = scenario_tasks l1 l2 l3;
         o0 = handle_home_opened tasks res n0 u conn;
         o1 = handle_toggle_any_group tasks res n1 m1
                \<lparr>body_user_id = u, body_action_id = ''task_toggle_g1'',
                  body_selected_options = Some [\<lparr>opt_text = x1, opt_value = ''t1''\<rparr>]\<rparr>
                (store o0);
         o2 = handle_toggle_any_group tasks res n2 m2
                \<lparr>body_user_id = u, body_action_id = ''task_toggle_g2'',
                  body_selected_options = Some [\<lparr>opt_text = x3, opt_value = ''t3''\<rparr>]\<rparr>
                (store o1);
         o3 = handle_toggle_any_group tasks res n3 m3
                \<lparr>body_user_id = u, body_action_id = ''task_toggle_g1'',
                  body_selected_options = Some []\<rparr>
                (store o2)
     in get_done_set (store o0) u = {}
      \<and> get_done_set (store o1) u = {''t1''}
      \<and> get_done_set (store o2) u = {''t1'', ''t3''}
      \<and> get_done_set (store o3) u = {''t3''}
      \<and> map (\<lambda>v. view_blocks v ! 2) (published_views o0) =
          [Section (Mrkdwn (''*Progress:* '' @ ''0/3 completed''))]
      \<and> map (\<lambda>v. view_blocks v ! 2) (published_views o1) =
          [Section (Mrkdwn (''*Progress:* '' @ ''1/3 completed''))]
      \<and> map (\<lambda>v. view_blocks v ! 2) (published_views o2) =
          [Section (Mrkdwn (''*Progress:* '' @ ''2/3 completed''))]
      \<and> map (\<lambda>v. view_blocks v ! 2) (published_views o3) =
          [Section (Mrkdwn (''*Progress:* '' @ ''1/3 completed''))]
      \<and> progress_text tasks (get_done_set (store o0) u) = ''0/3 completed''
      \<and> progress_text tasks (get_done_set (store o1) u) = ''1/3 completed''
      \<and> progress_text tasks (get_done_set (store o2) u) = ''2/3 completed''
      \<and> progress_text tasks (get_done_set (store o3) u) = ''1/3 completed''"
proof -
  define tasks where "tasks = scenario_tasks l1 l2 l3"
  define b1 where "b1 = \<lparr>body_user_id = u, body_action_id = ''task_toggle_g1'',
                  body_selected_options = Some [\<lparr>opt_text = x1, opt_value = ''t1''\<rparr>]\<rparr>"
  define b2 where "b2 = \<lparr>body_user_id = u, body_action_id = ''task_toggle_g2'',
                  body_selected_options = Some [\<lparr>opt_text = x3, opt_value = ''t3''\<rparr>]\<rparr>"
  define b3 where "b3 = \<lparr>body_user_id = u, body_action_id = ''task_toggle_g1'',
                  body_selected_options = Some ([] :: option_object list)\<rparr>"
  define o0 where "o0 = handle_home_opened tasks res n0 u conn"
  define o1 where "o1 = handle_toggle_any_group tasks res n1 m1 b1 (store o0)"
  define o2 where "o2 = handle_toggle_any_group tasks res n2 m2 b2 (store o1)"
  define o3 where "o3 = handle_toggle_any_group tasks res n3 m3 b3 (store o2)"
  have u: "body_user_id b1 = u" "body_user_id b2 = u" "body_user_id b3 = u"
    by (simp_all add: b1_def b2_def b3_def)
  have ids: "id_t ` set tasks = {''t1'', ''t2'', ''t3''}"
    unfolding tasks_def by (rule scenario_ids)
  have g: "group_task_ids tasks b1 = {''t1'', ''t2''}" "group_task_ids tasks b2 = {''t3''}"
      "group_task_ids tasks b3 = {''t1'', ''t2''}"
    unfolding tasks_def b1_def b2_def b3_def
    by (rule scenario_group_g1, rule scenario_group_g2, rule scenario_group_g1)
  have sel: "selected_ids b1 = {''t1''}" "selected_ids b2 = {''t3''}" "selected_ids b3 = {}"
    by (simp_all add: selected_ids_def b1_def b2_def b3_def)
  have e: "get_done_set conn u = {}"
    using assms by (auto simp add: get_done_set_def list_ex_iff)
  have d0: "get_done_set (store o0) u = {}"
    unfolding o0_def store_handle_home_opened get_done_set_ensure_user_rows by (rule e)
  have "get_done_set (store o1) u =
          (get_done_set (store o0) u - group_task_ids tasks b1) \<union>
          (selected_ids b1 \<inter> id_t ` set tasks)"
    unfolding o1_def using toggle_done_set [of tasks res n1 m1 b1 "store o0"] unfolding u .
  then have d1: "get_done_set (store o1) u = {''t1''}"
    unfolding d0 g sel ids by auto
  have "get_done_set (store o2) u =
          (get_done_set (store o1) u - group_task_ids tasks b2) \<union>
          (selected_ids b2 \<inter> id_t ` set tasks)"
    unfolding o2_def using toggle_done_set [of tasks res n2 m2 b2 "store o1"] unfolding u .
  then have d2: "get_done_set (store o2) u = {''t1'', ''t3''}"
    unfolding d1 g sel ids by auto
  have "get_done_set (store o3) u =
          (get_done_set (store o2) u - group_task_ids tasks b3) \<union>
          (selected_ids b3 \<inter> id_t ` set tasks)"
    unfolding o3_def using toggle_done_set [of tasks res n3 m3 b3 "store o2"] unfolding u .
  then have d3: "get_done_set (store o3) u = {''t3''}"
    unfolding d2 g sel ids by auto
  have t0: "progress_text tasks (get_done_set (store o0) u) = ''0/3 completed''"
    unfolding d0 tasks_def by (rule scenario_progress)
  have t1: "progress_text tasks (get_done_set (store o1) u) = ''1/3 completed''"
    unfolding d1 tasks_def by (rule scenario_progress)
  have t2: "progress_text tasks (get_done_set (store o2) u) = ''2/3 completed''"
    unfolding d2 tasks_def by (rule scenario_progress)
  have t3: "progress_text tasks (get_done_set (store o3) u) = ''1/3 completed''"
    unfolding d3 tasks_def by (rule scenario_progress)
  have p0: "map (\<lambda>v. view_blocks v ! 2) (published_views o0) =
          [Section (Mrkdwn (''*Progress:* '' @ ''0/3 completed''))]"
    using progress_line_handle_home_opened [of tasks res n0 u conn]
    unfolding o0_def [symmetric] t0 .
  have p1: "map (\<lambda>v. view_blocks v ! 2) (published_views o1) =
          [Section (Mrkdwn (''*Progress:* '' @ ''1/3 completed''))]"
    using progress_line_handle_toggle_any_group [of tasks res n1 m1 b1 "store o0"]
    unfolding o1_def [symmetric] u t1 .
  have p2: "map (\<lambda>v. view_blocks v ! 2) (published_views o2) =
          [Section (Mrkdwn (''*Progress:* '' @ ''2/3 completed''))]"
    using progress_line_handle_toggle_any_group [of tasks res n2 m2 b2 "store o1"]
    unfolding o2_def [symmetric] u t2 .
  have p3: "map (\<lambda>v. view_blocks v ! 2) (published_views o3) =
          [Section (Mrkdwn (''*Progress:* '' @ ''1/3 completed''))]"
    using progress_line_handle_toggle_any_group [of tasks res n3 m3 b3 "store o2"]
    unfolding o3_def [symmetric] u t3 .
  note all = d0 d1 d2 d3 p0 p1 p2 p3 t0 t1 t2 t3
  note all' = all [unfolded o3_def o2_def o1_def o0_def b1_def b2_def b3_def tasks_def]
  show ?thesis
    unfolding Let_def using all' by (intro conjI)
qed

text \<open>
  An instance: the table holds one row of another user, and \<open>u1\<close> goes through the four
  steps. At the end \<open>u1\<close> has completed \<open>t3\<close> only.
\<close>

theorem end_to_end_scenario_witness:
  "\<not> list_ex (\<lambda>r. user_id r = ''u1'')
       [\<lparr>user_id = ''u0'', task_id = ''t2'', done_flag = 1, updated_at = ''n''\<rparr>]
   \<and> get_done_set
        (store (handle_toggle_any_group (scenario_tasks ''a'' ''b'' ''c'') RESOURCES ''n3'' ''m3''
          \<lparr>body_user_id = ''u1'', body_action_id = ''task_toggle_g1'',
            body_selected_options = Some []\<rparr>
          (store (handle_toggle_any_group (scenario_tasks ''a'' ''b'' ''c'') RESOURCES ''n2'' ''m2''
            \<lparr>body_user_id = ''u1'', body_action_id = ''task_toggle_g2'',
              body_selected_options = Some [\<lparr>opt_text = Plain_text ''c'', opt_value = ''t3''\<rparr>]\<rparr>
            (store (handle_toggle_any_group (scenario_tasks ''a'' ''b'' ''c'') RESOURCES ''n1'' ''m1''
              \<lparr>body_user_id = ''u1'', body_action_id = ''task_toggle_g1'',
                body_selected_options = Some [\<lparr>opt_text = Plain_text ''a'', opt_value = ''t1''\<rparr>]\<rparr>
              (store (handle_home_opened (scenario_tasks ''a'' ''b'' ''c'') RESOURCES ''n0'' ''u1''
                 [\<lparr>user_id = ''u0'', task_id = ''t2'', done_flag = 1, updated_at = ''n''\<rparr>]))))))))
        ''u1'' = {''t3''}"
proof -
  have h: "\<not> list_ex (\<lambda>r. user_id r = ''u1'')
       [\<lparr>user_id = ''u0'', task_id = ''t2'', done_flag = 1, updated_at = ''n''\<rparr>]"
    by simp
  show ?thesis
    by (rule conjI [OF h
          end_to_end_scenario [OF h, where ?l1.0 = "''a''" and ?l2.0 = "''b''" and ?l3.0 = "''c''"
            and res = RESOURCES and ?n0.0 = "''n0''"
            and ?n1.0 = "''n1''" and ?m1.0 = "''m1''" and ?x1.0 = "Plain_text ''a''"
            and ?n2.0 = "''n2''" and ?m2.0 = "''m2''" and ?x3.0 = "Plain_text ''c''"
            and ?n3.0 = "''n3''" and ?m3.0 = "''m3''",
            unfolded Let_def, THEN conjunct2, THEN conjunct2, THEN conjunct2, THEN conjunct1]])
qed

text \<open>
  The claim as stated fails on the text of the progress line: after the first step the
  progress block of the view reads \<open>*Progress:* 0/3 completed\<close>, and no block of the
  view reads \<open>0/3 completed\<close>.
\<close>

theorem progress_line_counterexample:
  "rendered_blocks (build_home_view (scenario_tasks [] [] []) RESOURCES
      (store (handle_home_opened (scenario_tasks [] [] []) RESOURCES ''n0'' ''u1'' [])) ''u1'') ! 2 =
     Section (Mrkdwn ''*Progress:* 0/3 completed'')
   \<and> Section (Mrkdwn ''0/3 completed'') \<notin>
       set (rendered_blocks (build_home_view (scenario_tasks [] [] []) RESOURCES
         (store (handle_home_opened (scenario_tasks [] [] []) RESOURCES ''n0'' ''u1'' []))
         ''u1''))"
  unfolding rendered_blocks_build_home_view store_handle_home_opened
    get_done_set_ensure_user_rows
  by (simp add: scenario_tasks_def intro_blocks_def group_section_def Let_def get_done_set_def
        progress_text_def str_nat_evals)

end
